theory Spec2Isabelle
  imports Main "HOL-Library.AList_Mapping" "HOL-Library.Sublist"
begin

section \<open>Go strings: bytes, runes and the functions of package strings\<close>

text \<open>
  A Go string is a sequence of bytes; \<open>len\<close> counts bytes. The type \<open>string\<close>
  (a list of 8-bit characters) is used for it. A rune (\<open>int32\<close>) is a Unicode code
  point, an integer here; a byte read as a number is an integer too.
\<close>

type_synonym rune = int

definition RuneError :: rune where
  "RuneError = 0xFFFD"

definition RuneSelf :: int where
  "RuneSelf = 0x80"

text \<open>
  Table \<open>first\<close> of package unicode/utf8, read as the size of the encoding announced by
  a lead byte: 1 for ASCII, 0 for a byte that starts no encoding.
\<close>

definition runeSize :: "int \<Rightarrow> nat" where
  "runeSize b0 =
     (if b0 < 0x80 then 1 else if b0 < 0xC2 then 0 else if b0 < 0xE0 then 2
      else if b0 < 0xF0 then 3 else if b0 < 0xF5 then 4 else 0)"

text \<open>Table \<open>acceptRanges\<close>: the bounds of the second byte, by lead byte.\<close>

definition acceptRange :: "int \<Rightarrow> int \<times> int" where
  "acceptRange b0 =
     (if b0 = 0xE0 then (0xA0, 0xBF) else if b0 = 0xED then (0x80, 0x9F)
      else if b0 = 0xF0 then (0x90, 0xBF) else if b0 = 0xF4 then (0x80, 0x8F)
      else (0x80, 0xBF))"

text \<open>
  \<open>utf8.DecodeRuneInString\<close>: the first rune of the string and its width in bytes;
  an invalid encoding gives \<open>(RuneError, 1)\<close>, the empty string \<open>(RuneError, 0)\<close>.
\<close>

definition DecodeRuneInString :: "string \<Rightarrow> rune \<times> nat" where
  "DecodeRuneInString s =
     (let n = length s in
      if n < 1 then (RuneError, 0)
      else let s0 = of_char (s ! 0); sz = runeSize s0 in
        if sz = 1 then (s0, 1)
        else if sz = 0 then (RuneError, 1)
        else if n < sz then (RuneError, 1)
        else let s1 = of_char (s ! 1); lo = fst (acceptRange s0); hi = snd (acceptRange s0) in
          if s1 < lo \<or> hi < s1 then (RuneError, 1)
          else if sz \<le> 2 then ((s0 mod 32) * 64 + s1 mod 64, 2)
          else let s2 = of_char (s ! 2) in
            if s2 < 0x80 \<or> 0xBF < s2 then (RuneError, 1)
            else if sz \<le> 3 then ((s0 mod 16) * 4096 + (s1 mod 64) * 64 + s2 mod 64, 3)
            else let s3 = of_char (s ! 3) in
              if s3 < 0x80 \<or> 0xBF < s3 then (RuneError, 1)
              else ((s0 mod 8) * 262144 + (s1 mod 64) * 4096 + (s2 mod 64) * 64 + s3 mod 64, 4))"

lemma DecodeRuneInString_width:
  "s \<noteq> [] \<Longrightarrow> 1 \<le> snd (DecodeRuneInString s) \<and> snd (DecodeRuneInString s) \<le> length s"
proof -
  assume ne: "s \<noteq> []"
  then have len: "0 < length s" by simp
  let ?sz = "runeSize (of_char (s ! 0))"
  have "?sz = 0 \<or> ?sz = 1 \<or> ?sz = 2 \<or> ?sz = 3 \<or> ?sz = 4"
    by (simp add: runeSize_def)
  then show ?thesis
    using len by (elim disjE) (simp_all add: DecodeRuneInString_def Let_def Suc_le_eq not_less)
qed

text \<open>
  The runes a \<open>for _, r := range s\<close> loop visits, each with the bytes it was decoded
  from.
\<close>

function tokens :: "string \<Rightarrow> (rune \<times> string) list" where
  "tokens [] = []"
| "tokens (c # s) =
     (let w = snd (DecodeRuneInString (c # s))
      in (fst (DecodeRuneInString (c # s)), take w (c # s)) # tokens (drop w (c # s)))"
  by pat_completeness auto
termination
proof (relation "measure length")
  show "wf (measure length)" by simp
next
  fix c :: char and s :: string and w :: nat
  assume "w = snd (DecodeRuneInString (c # s))"
  moreover have "1 \<le> snd (DecodeRuneInString (c # s))"
    using DecodeRuneInString_width [of "c # s"] by simp
  ultimately show "(drop w (c # s), c # s) \<in> measure length" by simp
qed

definition runes :: "string \<Rightarrow> rune list" where
  "runes s = map fst (tokens s)"

text \<open>\<open>utf8.EncodeRune\<close> / \<open>string(rune)\<close>: surrogates and values beyond U+10FFFF
  are written as U+FFFD.\<close>

definition EncodeRune :: "rune \<Rightarrow> string" where
  "EncodeRune r =
     (if r < 0 then [CHR 0xEF, CHR 0xBF, CHR 0xBD]
      else if r < 0x80 then [char_of r]
      else if r < 0x800 then [char_of (0xC0 + r div 64), char_of (0x80 + r mod 64)]
      else if (0xD800 \<le> r \<and> r \<le> 0xDFFF) \<or> 0x10FFFF < r then [CHR 0xEF, CHR 0xBF, CHR 0xBD]
      else if r < 0x10000 then
        [char_of (0xE0 + r div 4096), char_of (0x80 + (r div 64) mod 64), char_of (0x80 + r mod 64)]
      else
        [char_of (0xF0 + r div 262144), char_of (0x80 + (r div 4096) mod 64),
         char_of (0x80 + (r div 64) mod 64), char_of (0x80 + r mod 64)])"

text \<open>\<open>string(rs)\<close> for a slice of runes.\<close>

definition stringOfRunes :: "rune list \<Rightarrow> string" where
  "stringOfRunes rs = concat (map EncodeRune rs)"

text \<open>\<open>strings.Contains\<close>: the second string occurs in the first as a run of bytes.\<close>

fun Contains :: "string \<Rightarrow> string \<Rightarrow> bool" where
  "Contains [] sub = (sub = [])"
| "Contains (c # s) sub = (prefix sub (c # s) \<or> Contains s sub)"

text \<open>
  \<open>strings.ContainsAny s chars\<close>, for \<open>chars\<close> a valid UTF-8 string (as every literal
  of the program is): some rune of \<open>s\<close> is a rune of \<open>chars\<close>. An invalid byte of \<open>s\<close>
  reads as U+FFFD and is looked up as such.
\<close>

definition ContainsAny :: "string \<Rightarrow> string \<Rightarrow> bool" where
  "ContainsAny s chars = list_ex (\<lambda>r. r \<in> set (runes chars)) (runes s)"

text \<open>
  \<open>strings.ReplaceAll s old new\<close> for a non-empty \<open>old\<close>: the non-overlapping
  occurrences of \<open>old\<close>, found from the left, are replaced by \<open>new\<close>. The program
  never calls it with an empty \<open>old\<close>; the model returns \<open>s\<close> there.
\<close>

function ReplaceAll :: "string \<Rightarrow> string \<Rightarrow> string \<Rightarrow> string" where
  "ReplaceAll [] old new = []"
| "ReplaceAll (c # s) old new =
     (if old \<noteq> [] \<and> prefix old (c # s)
      then new @ ReplaceAll (drop (length old) (c # s)) old new
      else c # ReplaceAll s old new)"
  by pat_completeness auto
termination
  by (relation "measure (\<lambda>(s, old, new). length s)") (auto simp: neq_Nil_conv)

text \<open>\<open>unicode.IsSpace\<close>.\<close>

definition IsSpace :: "rune \<Rightarrow> bool" where
  "IsSpace r =
     (r = 0x09 \<or> r = 0x0A \<or> r = 0x0B \<or> r = 0x0C \<or> r = 0x0D \<or> r = 0x20 \<or> r = 0x85 \<or> r = 0xA0
      \<or> r = 0x1680 \<or> (0x2000 \<le> r \<and> r \<le> 0x200A) \<or> r = 0x2028 \<or> r = 0x2029 \<or> r = 0x202F
      \<or> r = 0x205F \<or> r = 0x3000)"

text \<open>\<open>strings.TrimLeftFunc s unicode.IsSpace\<close>: drop leading white-space runes.\<close>

function TrimLeftSpace :: "string \<Rightarrow> string" where
  "TrimLeftSpace [] = []"
| "TrimLeftSpace (c # s) =
     (if IsSpace (fst (DecodeRuneInString (c # s)))
      then TrimLeftSpace (drop (snd (DecodeRuneInString (c # s))) (c # s))
      else c # s)"
  by pat_completeness auto
termination
proof (relation "measure length")
  show "wf (measure length)" by simp
next
  fix c :: char and s :: string
  have "1 \<le> snd (DecodeRuneInString (c # s))"
    using DecodeRuneInString_width [of "c # s"] by simp
  then show "(drop (snd (DecodeRuneInString (c # s))) (c # s), c # s) \<in> measure length"
    by simp
qed

text \<open>\<open>utf8.RuneStart\<close>: the byte is not a continuation byte.\<close>

definition RuneStart :: "int \<Rightarrow> bool" where
  "RuneStart b = (b div 64 \<noteq> 2)"

text \<open>
  The backward scan of \<open>utf8.DecodeLastRuneInString\<close>:
  \<open>for start--; start >= lim; start-- { if RuneStart(s[start]) { break } }\<close>,
  entered with the decremented \<open>start\<close>.
\<close>

function lastStart :: "string \<Rightarrow> int \<Rightarrow> int \<Rightarrow> int" where
  "lastStart s start lim =
     (if start \<ge> lim
      then (if RuneStart (of_char (s ! nat start)) then start else lastStart s (start - 1) lim)
      else start)"
  by pat_completeness auto
termination
  by (relation "measure (\<lambda>(s, start, lim). nat (start - lim + 1))") auto

declare lastStart.simps [simp del]

definition DecodeLastRuneInString :: "string \<Rightarrow> rune \<times> nat" where
  "DecodeLastRuneInString s =
     (let end = int (length s) in
      if end = 0 then (RuneError, 0)
      else let r = of_char (s ! nat (end - 1)) in
        if r < RuneSelf then (r, 1)
        else let lim = max 0 (end - 4);
                 start0 = lastStart s (end - 2) lim;
                 start = (if start0 < 0 then 0 else start0);
                 d = DecodeRuneInString (drop (nat start) s)
             in if start + int (snd d) \<noteq> end then (RuneError, 1) else d)"

lemma lastStart_bounds: "lim \<le> start + 1 \<Longrightarrow> lim - 1 \<le> lastStart s start lim \<and> lastStart s start lim \<le> start"
proof (induction s start lim rule: lastStart.induct)
  case (1 s start lim)
  show ?case
  proof (cases "start \<ge> lim")
    case True
    then show ?thesis
      using "1.IH" by (cases "RuneStart (of_char (s ! nat start))") (auto simp: lastStart.simps [of s start lim])
  next
    case False
    then show ?thesis
      using "1.prems" by (simp add: lastStart.simps [of s start lim])
  qed
qed

lemma DecodeLastRuneInString_width:
  assumes "s \<noteq> []"
  shows "1 \<le> snd (DecodeLastRuneInString s) \<and> snd (DecodeLastRuneInString s) \<le> length s"
proof -
  let ?len = "int (length s)"
  let ?low = "max 0 (?len - 4)"
  let ?prev = "lastStart s (?len - 2) ?low"
  let ?from = "if ?prev < 0 then 0 else ?prev"
  have len: "1 \<le> length s" using assms by (cases s) auto
  have "?low \<le> (?len - 2) + 1" using len by auto
  from lastStart_bounds [OF this, of s] have b: "?prev \<le> ?len - 2" by blast
  have lt: "nat ?from < length s"
  proof (cases "?prev < 0")
    case True
    then show ?thesis using assms by simp
  next
    case False
    then show ?thesis using b by simp
  qed
  then have ne: "drop (nat ?from) s \<noteq> []" by simp
  have w: "1 \<le> snd (DecodeRuneInString (drop (nat ?from) s))"
    using DecodeRuneInString_width [OF ne] by blast
  have "snd (DecodeRuneInString (drop (nat ?from) s)) \<le> length (drop (nat ?from) s)"
    using DecodeRuneInString_width [OF ne] by blast
  also have "\<dots> \<le> length s" by simp
  finally have w': "snd (DecodeRuneInString (drop (nat ?from) s)) \<le> length s" .
  show ?thesis
    using len w w' by (auto simp: DecodeLastRuneInString_def Let_def)
qed

text \<open>
  \<open>lastIndexFunc s unicode.IsSpace false\<close>: the byte index of the last rune, reading
  backwards, that is not white space, or -1. The loop variable \<open>i\<close> of the source is the
  length of the prefix \<open>s[0:i]\<close> still to be read, which is the argument here.
\<close>

function lastIndexNotSpace :: "string \<Rightarrow> int" where
  "lastIndexNotSpace s =
     (if s = [] then - 1
      else let size = snd (DecodeLastRuneInString s); i = length s - size in
        if \<not> IsSpace (fst (DecodeLastRuneInString s)) then int i
        else lastIndexNotSpace (take i s))"
  by pat_completeness auto
termination
proof (relation "measure length")
  show "wf (measure length)" by simp
next
  fix s :: string and size i :: nat
  assume "s \<noteq> []" and "size = snd (DecodeLastRuneInString s)" and "i = length s - size"
  then show "(take i s, s) \<in> measure length"
    using DecodeLastRuneInString_width [of s] by auto
qed

declare lastIndexNotSpace.simps [simp del]

text \<open>\<open>strings.TrimRightFunc s unicode.IsSpace\<close>.\<close>

definition TrimRightSpace :: "string \<Rightarrow> string" where
  "TrimRightSpace s =
     (let i = lastIndexNotSpace s in
      if i \<ge> 0 \<and> of_char (s ! nat i) \<ge> RuneSelf
      then take (nat i + snd (DecodeRuneInString (drop (nat i) s))) s
      else take (nat (i + 1)) s)"

text \<open>
  \<open>strings.TrimSpace\<close>: leading and trailing white space, as Unicode defines it, removed.
\<close>

definition TrimSpace :: "string \<Rightarrow> string" where
  "TrimSpace s = TrimRightSpace (TrimLeftSpace s)"

section \<open>String literals of the program\<close>

text \<open>The non-ASCII literals of the source, as the UTF-8 bytes the compiler stores.\<close>

definition nen :: string where \<comment> \<open>U+5E74, year\<close>
  "nen = [CHR 0xE5, CHR 0xB9, CHR 0xB4]"

definition gatsu :: string where \<comment> \<open>U+6708, month\<close>
  "gatsu = [CHR 0xE6, CHR 0x9C, CHR 0x88]"

definition nichi :: string where \<comment> \<open>U+65E5, day\<close>
  "nichi = [CHR 0xE6, CHR 0x97, CHR 0xA5]"

definition to :: string where \<comment> \<open>U+90FD, metropolis\<close>
  "to = [CHR 0xE9, CHR 0x83, CHR 0xBD]"

definition dou :: string where \<comment> \<open>U+9053, circuit (Hokkaido)\<close>
  "dou = [CHR 0xE9, CHR 0x81, CHR 0x93]"

definition fu :: string where \<comment> \<open>U+5E9C, urban prefecture\<close>
  "fu = [CHR 0xE5, CHR 0xBA, CHR 0x9C]"

definition ken :: string where \<comment> \<open>U+770C, prefecture\<close>
  "ken = [CHR 0xE7, CHR 0x9C, CHR 0x8C]"

definition shi :: string where \<comment> \<open>U+5E02, city\<close>
  "shi = [CHR 0xE5, CHR 0xB8, CHR 0x82]"

definition ku :: string where \<comment> \<open>U+533A, ward\<close>
  "ku = [CHR 0xE5, CHR 0x8C, CHR 0xBA]"

definition chou :: string where \<comment> \<open>U+753A, town\<close>
  "chou = [CHR 0xE7, CHR 0x94, CHR 0xBA]"

definition son :: string where \<comment> \<open>U+6751, village\<close>
  "son = [CHR 0xE6, CHR 0x9D, CHR 0x91]"

definition sei :: string where \<comment> \<open>U+751F, birth\<close>
  "sei = [CHR 0xE7, CHR 0x94, CHR 0x9F]"

definition koufu :: string where \<comment> \<open>U+4EA4 U+4ED8, issuance\<close>
  "koufu = [CHR 0xE4, CHR 0xBA, CHR 0xA4, CHR 0xE4, CHR 0xBB, CHR 0x98]"

definition yuukou :: string where \<comment> \<open>U+6709 U+52B9, validity\<close>
  "yuukou = [CHR 0xE6, CHR 0x9C, CHR 0x89, CHR 0xE5, CHR 0x8A, CHR 0xB9]"

definition shimei :: string where \<comment> \<open>U+6C0F U+540D, full name\<close>
  "shimei = [CHR 0xE6, CHR 0xB0, CHR 0x8F, CHR 0xE5, CHR 0x90, CHR 0x8D]"

definition shi_mei :: string where \<comment> \<open>U+6C0F, a space, U+540D\<close>
  "shi_mei = [CHR 0xE6, CHR 0xB0, CHR 0x8F, CHR 0x20, CHR 0xE5, CHR 0x90, CHR 0x8D]"

definition bangou :: string where \<comment> \<open>U+756A U+53F7, number\<close>
  "bangou = [CHR 0xE7, CHR 0x95, CHR 0xAA, CHR 0xE5, CHR 0x8F, CHR 0xB7]"

definition menkyo :: string where \<comment> \<open>U+514D U+8A31, licence\<close>
  "menkyo = [CHR 0xE5, CHR 0x85, CHR 0x8D, CHR 0xE8, CHR 0xA8, CHR 0xB1]"

definition seinengappi :: string where \<comment> \<open>U+751F U+5E74 U+6708 U+65E5, date of birth\<close>
  "seinengappi = sei @ nen @ gatsu @ nichi"

definition choume_banchi :: string where \<comment> \<open>U+4E01 U+76EE U+756A U+5730, block and lot\<close>
  "choume_banchi = [CHR 0xE4, CHR 0xB8, CHR 0x81, CHR 0xE7, CHR 0x9B, CHR 0xAE,
                    CHR 0xE7, CHR 0x95, CHR 0xAA, CHR 0xE5, CHR 0x9C, CHR 0xB0]"

definition kojin_bangou :: string where \<comment> \<open>U+500B U+4EBA U+756A U+53F7, individual number\<close>
  "kojin_bangou = [CHR 0xE5, CHR 0x80, CHR 0x8B, CHR 0xE4, CHR 0xBA, CHR 0xBA] @ bangou"

definition otoko :: string where \<comment> \<open>U+7537, male\<close>
  "otoko = [CHR 0xE7, CHR 0x94, CHR 0xB7]"

definition onna :: string where \<comment> \<open>U+5973, female\<close>
  "onna = [CHR 0xE5, CHR 0xA5, CHR 0xB3]"

definition dansei :: string where \<comment> \<open>U+7537 U+6027\<close>
  "dansei = otoko @ [CHR 0xE6, CHR 0x80, CHR 0xA7]"

definition josei :: string where \<comment> \<open>U+5973 U+6027\<close>
  "josei = onna @ [CHR 0xE6, CHR 0x80, CHR 0xA7]"

definition digits :: string where
  "digits = ''0123456789''"

definition todoufuken_shikuchouson :: string where
  \<comment> \<open>the eight administrative-division characters of the validators\<close>
  "todoufuken_shikuchouson = to @ dou @ fu @ ken @ shi @ ku @ chou @ son"

section \<open>The region classifier (ocr/interface.go)\<close>

text \<open>\<open>OCREngine.categorizeText\<close>. The category is a Go string.\<close>

definition categorizeText :: "string \<Rightarrow> string" where
  "categorizeText text =
     (if Contains text nen \<and> Contains text gatsu then ''date''
      else if Contains text to \<or> Contains text ken \<or> Contains text shi \<or> Contains text ku
        then ''address''
      else if length text \<ge> 2 \<and> length text \<le> 10 \<and> \<not> ContainsAny text digits then ''name''
      else if ContainsAny text digits \<and> length text \<ge> 4 then ''number''
      else ''other'')"

section \<open>Data model\<close>

text \<open>
  \<open>ocr.RegionInfo\<close>. The field \<open>Confidence\<close> (a float64 that no parser reads) is left
  out.
\<close>

record RegionInfo =
  Text :: string
  X :: int
  Y :: int
  W :: int
  H :: int
  Category :: string

text \<open>The map \<open>map[string]string\<close> a parser fills and returns.\<close>

type_synonym FieldMap = "(string, string) mapping"

text \<open>
  The errors of the parsers. A constructor with an \<open>error\<close> argument is a
  \<open>fmt.Errorf\<close> that wraps it with \<open>%w\<close>:
  \<^item> \<open>EmptyMatData\<close>: "empty Mat data" (\<open>Mat.ToBytes\<close>);
  \<^item> \<open>CannotProcessEmptyImage\<close>: "cannot process empty image";
  \<^item> \<open>EngineError\<close>: an error returned by the external OCR engine;
  \<^item> \<open>ToBytesFailed\<close>: "failed to convert Mat to bytes: ...";
  \<^item> \<open>ExtractRegionsFailed\<close>: "failed to extract regions: ...";
  \<^item> \<open>EngineExtractTextFailed\<close>: "OCR engine failed to extract text: ...";
  \<^item> \<open>OcrFailed\<close>: "failed to extract text via OCR: ...";
  \<^item> \<open>RegexFailed\<close>: "failed to parse text with regex: ...";
  \<^item> \<open>ValidationFailed\<close>: "validation failed for ... data: ...";
  \<^item> \<open>RequiredFieldMissing f\<close>: "required field 'f' is missing or empty";
  \<^item> \<open>InvalidLicenseNumberFormat n\<close>: "invalid license number format: expected 12 digits, got n";
  \<^item> \<open>InvalidIndividualNumberFormat n\<close>: "invalid individual number format: expected 12 digits, got n";
  \<^item> \<open>InvalidGenderValue g\<close>: "invalid gender value: expected ... got 'g'".
\<close>

datatype error =
    EmptyMatData
  | CannotProcessEmptyImage
  | EngineError string
  | ToBytesFailed error
  | ExtractRegionsFailed error
  | EngineExtractTextFailed error
  | OcrFailed error
  | RegexFailed error
  | ValidationFailed error
  | RequiredFieldMissing string
  | InvalidLicenseNumberFormat nat
  | InvalidIndividualNumberFormat nat
  | InvalidGenderValue string

text \<open>\<open>imageprocessor.Mat\<close> is a byte slice.\<close>

type_synonym Mat = string

definition ToBytes :: "Mat \<Rightarrow> error + string" where
  "ToBytes m = (if length m = 0 then Inl EmptyMatData else Inr m)"

text \<open>
  The OCR engine runs an external recognition program; what it returns for an image is a
  parameter of the model.
\<close>

record OCREngine =
  ExtractRegions :: "string \<Rightarrow> error + RegionInfo list"
  ExtractText :: "string \<Rightarrow> error + string"

section \<open>Field validators and enhancement passes (package parser)\<close>

text \<open>
  \<open>isValidDate\<close>, \<open>isValidIndividualNumber\<close>, \<open>isValidLicenseNumber\<close> and
  \<open>extractMunicipalityFromRegions\<close> read the same wherever the sources define them.
\<close>

definition isValidDate :: "string \<Rightarrow> bool" where
  "isValidDate text = (Contains text nen \<and> Contains text gatsu)"

text \<open>The loop \<open>for _, r := range s { if r < '0' || r > '9' { return false } }\<close>.\<close>

fun allDigitRunes :: "rune list \<Rightarrow> bool" where
  "allDigitRunes [] = True"
| "allDigitRunes (r # rs) = (if r < 0x30 \<or> r > 0x39 then False else allDigitRunes rs)"

definition isValidIndividualNumber :: "string \<Rightarrow> bool" where
  "isValidIndividualNumber text =
     (if length text \<noteq> 12 then False else allDigitRunes (runes text))"

definition isValidLicenseNumber :: "string \<Rightarrow> bool" where
  "isValidLicenseNumber text =
     (let cleaned = ReplaceAll text '' '' '''' in
      if length cleaned \<noteq> 12 then False else allDigitRunes (runes cleaned))"

fun extractMunicipalityFromRegions :: "RegionInfo list \<Rightarrow> string" where
  "extractMunicipalityFromRegions [] = ''''"
| "extractMunicipalityFromRegions (region # regions) =
     (if Contains (Text region) to \<or> Contains (Text region) ken \<or>
         Contains (Text region) shi \<or> Contains (Text region) ku
      then (let municipality = TrimSpace (Text region) in
            if length municipality \<ge> 3 \<and> length municipality \<le> 20 then municipality
            else extractMunicipalityFromRegions regions)
      else extractMunicipalityFromRegions regions)"

text \<open>
  \<open>isValidName\<close>, \<open>isValidAddress\<close> and \<open>extractNameFromRegions\<close> are defined twice in
  the sources of package parser: in the helper file (the one that also holds
  \<open>isValidLicenseNumber\<close>), and, in a shorter form, in the file of the
  individual-number-card parser. Only one copy can be compiled into the package. Both are
  given, the helper file's under the source's names and the card file's with the suffix
  \<open>_cardFile\<close>; the region-based stage takes the copy in use as a parameter.
\<close>

definition isValidName :: "string \<Rightarrow> bool" where
  "isValidName text =
     (if Contains text shimei \<or> Contains text bangou \<or> Contains text menkyo then False
      else if length text < 2 \<or> length text > 20 then False
      else \<not> ContainsAny text (digits @ nen @ gatsu @ nichi @ todoufuken_shikuchouson))"

definition isValidAddress :: "string \<Rightarrow> bool" where
  "isValidAddress text =
     (if length text < 5 then False
      else if \<not> ContainsAny text (todoufuken_shikuchouson @ choume_banchi) then False
      else if Contains text shimei \<or> Contains text seinengappi then False
      else True)"

definition isValidName_cardFile :: "string \<Rightarrow> bool" where
  "isValidName_cardFile text =
     (if length text < 2 \<or> length text > 20 then False
      else \<not> ContainsAny text (digits @ nen @ gatsu @ nichi @ todoufuken_shikuchouson))"

definition isValidAddress_cardFile :: "string \<Rightarrow> bool" where
  "isValidAddress_cardFile text =
     (if length text < 5 then False
      else ContainsAny text todoufuken_shikuchouson)"

text \<open>
  The first loop of the helper file's \<open>extractNameFromRegions\<close>: at a region holding the
  name label, try the next region (\<open>regions[i+1]\<close>, when there is one), then the region
  itself. \<open>None\<close> means the loop ended without returning.
\<close>

fun nameAfterLabel :: "RegionInfo list \<Rightarrow> string option" where
  "nameAfterLabel [] = None"
| "nameAfterLabel (region # rest) =
     (if Contains (Text region) shimei \<or> Contains (Text region) shi_mei
      then (let next = (case rest of [] \<Rightarrow> None
                        | r # _ \<Rightarrow>
                            (let name = TrimSpace (ReplaceAll (TrimSpace (Text r)) shimei '''')
                             in if isValidName name then Some name else None))
            in case next of Some name \<Rightarrow> Some name
               | None \<Rightarrow>
                   (let name = TrimSpace (ReplaceAll (Text region) shimei '''')
                    in if isValidName name then Some name else nameAfterLabel rest))
      else nameAfterLabel rest)"

text \<open>
  The loop both copies share (the only loop of the card file's copy): the first region
  that looks like a name and is a valid one, by the copy's own \<open>isValidName\<close>.
\<close>

fun nameByShape :: "(string \<Rightarrow> bool) \<Rightarrow> RegionInfo list \<Rightarrow> string" where
  "nameByShape valid [] = ''''"
| "nameByShape valid (region # regions) =
     (if Category region = ''name'' \<or>
         (length (Text region) \<ge> 2 \<and> length (Text region) \<le> 10 \<and>
          \<not> ContainsAny (Text region)
              (digits @ nen @ gatsu @ nichi @ todoufuken_shikuchouson @ kojin_bangou))
      then (let name = TrimSpace (Text region) in
            if valid name then name else nameByShape valid regions)
      else nameByShape valid regions)"

definition extractNameFromRegions :: "RegionInfo list \<Rightarrow> string" where
  "extractNameFromRegions regions =
     (case nameAfterLabel regions of
        Some name \<Rightarrow> name
      | None \<Rightarrow> nameByShape isValidName regions)"

definition extractNameFromRegions_cardFile :: "RegionInfo list \<Rightarrow> string" where
  "extractNameFromRegions_cardFile regions = nameByShape isValidName_cardFile regions"

text \<open>The copy in use.\<close>

record helpers =
  isValidName_of :: "string \<Rightarrow> bool"
  isValidAddress_of :: "string \<Rightarrow> bool"
  extractNameFromRegions_of :: "RegionInfo list \<Rightarrow> string"

definition helperFile :: helpers where
  "helperFile =
     \<lparr>isValidName_of = isValidName, isValidAddress_of = isValidAddress,
      extractNameFromRegions_of = extractNameFromRegions\<rparr>"

definition cardFile :: helpers where
  "cardFile =
     \<lparr>isValidName_of = isValidName_cardFile, isValidAddress_of = isValidAddress_cardFile,
      extractNameFromRegions_of = extractNameFromRegions_cardFile\<rparr>"

section \<open>Region-based stage\<close>

text \<open>The body of the loop \<open>for _, region := range regions\<close> of the driver's-license parser.\<close>

definition regionStep_DL :: "helpers \<Rightarrow> FieldMap \<Rightarrow> RegionInfo \<Rightarrow> FieldMap" where
  "regionStep_DL h extractedData region =
     (if Category region = ''name'' then
        (if isValidName_of h (Text region)
         then Mapping.update ''name'' (Text region) extractedData else extractedData)
      else if Category region = ''address'' then
        (if isValidAddress_of h (Text region)
         then Mapping.update ''address'' (Text region) extractedData else extractedData)
      else if Category region = ''date'' then
        (if isValidDate (Text region) then
           (if Contains (Text region) sei
              then Mapping.update ''birth_date'' (Text region) extractedData
            else if Contains (Text region) koufu
              then Mapping.update ''issue_date'' (Text region) extractedData
            else if Contains (Text region) yuukou
              then Mapping.update ''expiry_date'' (Text region) extractedData
            else extractedData)
         else extractedData)
      else if Category region = ''number'' then
        (if isValidLicenseNumber (Text region)
         then Mapping.update ''license_number'' (Text region) extractedData else extractedData)
      else extractedData)"

text \<open>The same for the individual-number-card parser.\<close>

definition regionStep_IN :: "helpers \<Rightarrow> FieldMap \<Rightarrow> RegionInfo \<Rightarrow> FieldMap" where
  "regionStep_IN h extractedData region =
     (if Category region = ''name'' then
        (if isValidName_of h (Text region)
         then Mapping.update ''name'' (Text region) extractedData else extractedData)
      else if Category region = ''address'' then
        (if isValidAddress_of h (Text region)
         then Mapping.update ''address'' (Text region) extractedData else extractedData)
      else if Category region = ''date'' then
        (if isValidDate (Text region) then
           (if Contains (Text region) sei
              then Mapping.update ''birth_date'' (Text region) extractedData
            else Mapping.update ''expiry_date'' (Text region) extractedData)
         else extractedData)
      else if Category region = ''number'' then
        (if isValidIndividualNumber (Text region)
         then Mapping.update ''individual_number'' (Text region) extractedData
         else extractedData)
      else extractedData)"

text \<open>The two enhancement passes that follow the loop, the same in both parsers.\<close>

definition enhance :: "helpers \<Rightarrow> RegionInfo list \<Rightarrow> FieldMap \<Rightarrow> FieldMap" where
  "enhance h regions extractedData =
     (let municipality = extractMunicipalityFromRegions regions;
          d1 = (if municipality \<noteq> '''' then Mapping.update ''municipality'' municipality extractedData
                else extractedData);
          name = extractNameFromRegions_of h regions
      in if name \<noteq> '''' then Mapping.update ''name'' name d1 else d1)"

definition parseWithRegionDetection_DL :: "helpers \<Rightarrow> OCREngine \<Rightarrow> Mat \<Rightarrow> error + FieldMap" where
  "parseWithRegionDetection_DL h engine mat =
     (case ToBytes mat of
        Inl err \<Rightarrow> Inl (ToBytesFailed err)
      | Inr imageData \<Rightarrow>
          (case ExtractRegions engine imageData of
             Inl err \<Rightarrow> Inl (ExtractRegionsFailed err)
           | Inr regions \<Rightarrow>
               Inr (enhance h regions (foldl (regionStep_DL h) Mapping.empty regions))))"

definition parseWithRegionDetection_IN :: "helpers \<Rightarrow> OCREngine \<Rightarrow> Mat \<Rightarrow> error + FieldMap" where
  "parseWithRegionDetection_IN h engine mat =
     (case ToBytes mat of
        Inl err \<Rightarrow> Inl (ToBytesFailed err)
      | Inr imageData \<Rightarrow>
          (case ExtractRegions engine imageData of
             Inl err \<Rightarrow> Inl (ExtractRegionsFailed err)
           | Inr regions \<Rightarrow>
               Inr (enhance h regions (foldl (regionStep_IN h) Mapping.empty regions))))"

section \<open>Validation\<close>

text \<open>
  The loop over \<open>requiredFields\<close>; \<open>None\<close> is the nil error. (The card's
  \<open>validateExtractedData\<close> also prints a line on the console, which is not modelled.)
\<close>

fun checkRequired :: "FieldMap \<Rightarrow> string list \<Rightarrow> error option" where
  "checkRequired data [] = None"
| "checkRequired data (field # rest) =
     (case Mapping.lookup data field of
        None \<Rightarrow> Some (RequiredFieldMissing field)
      | Some v \<Rightarrow>
          if TrimSpace v = '''' then Some (RequiredFieldMissing field)
          else checkRequired data rest)"

definition validateExtractedData_DL :: "FieldMap \<Rightarrow> error option" where
  "validateExtractedData_DL data =
     (case checkRequired data [''name''] of
        Some err \<Rightarrow> Some err
      | None \<Rightarrow>
          (case Mapping.lookup data ''license_number'' of
             Some licenseNumber \<Rightarrow>
               (let cleanNumber = ReplaceAll licenseNumber '' '' '''' in
                if length cleanNumber \<noteq> 12
                then Some (InvalidLicenseNumberFormat (length cleanNumber)) else None)
           | None \<Rightarrow> None))"

definition validateExtractedData_IN :: "FieldMap \<Rightarrow> error option" where
  "validateExtractedData_IN data =
     (case checkRequired data [''name''] of
        Some err \<Rightarrow> Some err
      | None \<Rightarrow>
          (case (case Mapping.lookup data ''individual_number'' of
                   Some individualNumber \<Rightarrow>
                     (let cleanNumber = ReplaceAll (ReplaceAll individualNumber '' '' '''') ''-'' ''''
                      in if length cleanNumber \<noteq> 12
                         then Some (InvalidIndividualNumberFormat (length cleanNumber)) else None)
                 | None \<Rightarrow> None) of
             Some err \<Rightarrow> Some err
           | None \<Rightarrow>
               (case Mapping.lookup data ''gender'' of
                  Some gender \<Rightarrow>
                    if gender \<noteq> otoko \<and> gender \<noteq> onna then Some (InvalidGenderValue gender)
                    else None
                | None \<Rightarrow> None)))"

section \<open>Normalization of the fallback-derived map\<close>

lemma ReplaceAll_length_le:
  "length new \<le> length old \<Longrightarrow> length (ReplaceAll s old new) \<le> length s"
proof (induction s old new rule: ReplaceAll.induct)
  case (1 old new)
  then show ?case by simp
next
  case (2 c s old new)
  show ?case
  proof (cases "old \<noteq> [] \<and> prefix old (c # s)")
    case True
    then have "length old \<le> length (c # s)" using prefix_length_le by blast
    moreover have "length (ReplaceAll (drop (length old) (c # s)) old new)
        \<le> length (drop (length old) (c # s))"
      using 2 True by simp
    ultimately show ?thesis using True "2.prems" by simp
  next
    case False
    then show ?thesis using 2 by auto
  qed
qed

lemma ReplaceAll_length_less:
  "length new < length old \<Longrightarrow> Contains s old \<Longrightarrow> length (ReplaceAll s old new) < length s"
proof (induction s old new rule: ReplaceAll.induct)
  case (1 old new)
  then show ?case by simp
next
  case (2 c s old new)
  show ?case
  proof (cases "old \<noteq> [] \<and> prefix old (c # s)")
    case True
    then have "length old \<le> length (c # s)" using prefix_length_le by blast
    moreover have "length (ReplaceAll (drop (length old) (c # s)) old new)
        \<le> length (drop (length old) (c # s))"
      using "2.prems" by (intro ReplaceAll_length_le) simp
    ultimately show ?thesis using True "2.prems" by simp
  next
    case False
    then have "Contains s old" using "2.prems" by auto
    then show ?thesis using 2 False by auto
  qed
qed

text \<open>
  The loop \<open>for strings.Contains(cleaned, "  ") { cleaned = strings.ReplaceAll(cleaned, "  ", " ") }\<close>.
\<close>

function collapseSpaces :: "string \<Rightarrow> string" where
  "collapseSpaces cleaned =
     (if Contains cleaned ''  '' then collapseSpaces (ReplaceAll cleaned ''  '' '' '')
      else cleaned)"
  by pat_completeness auto
termination
  by (relation "measure length") (auto intro: ReplaceAll_length_less)

declare collapseSpaces.simps [simp del]

text \<open>The address and name steps, the same in both parsers.\<close>

definition cleanAddress :: "FieldMap \<Rightarrow> FieldMap" where
  "cleanAddress data =
     (case Mapping.lookup data ''address'' of
        Some address \<Rightarrow>
          (let cleaned = ReplaceAll address [CHR 0x0A] '' '';
               cleaned = ReplaceAll cleaned [CHR 0x09] '' '';
               cleaned = collapseSpaces cleaned
           in Mapping.update ''address'' (TrimSpace cleaned) data)
      | None \<Rightarrow> data)"

definition normalizeName :: "FieldMap \<Rightarrow> FieldMap" where
  "normalizeName data =
     (case Mapping.lookup data ''name'' of
        Some name \<Rightarrow>
          (let cleaned = TrimSpace name;
               cleaned =
                 (if \<not> Contains cleaned '' '' \<and> length (runes cleaned) > 2 then
                    (let rs = runes cleaned in
                     if length rs \<ge> 4 then
                       (let familyNameEnd = (if length rs > 5 then 3 else 2)
                        in stringOfRunes (take familyNameEnd rs) @ '' '' @
                           stringOfRunes (drop familyNameEnd rs))
                     else cleaned)
                  else cleaned)
           in Mapping.update ''name'' cleaned data)
      | None \<Rightarrow> data)"

text \<open>The numeric-identifier step of the driver's-license parser.\<close>

definition normalizeLicenseNumber :: "FieldMap \<Rightarrow> FieldMap" where
  "normalizeLicenseNumber data =
     (case Mapping.lookup data ''license_number'' of
        Some licenseNumber \<Rightarrow>
          (let cleaned = ReplaceAll licenseNumber ''  '' '' '';
               cleaned = TrimSpace cleaned
           in Mapping.update ''license_number'' cleaned data)
      | None \<Rightarrow> data)"

definition postProcessExtractedData_DL :: "FieldMap \<Rightarrow> FieldMap" where
  "postProcessExtractedData_DL data = normalizeName (cleanAddress (normalizeLicenseNumber data))"

text \<open>The numeric-identifier and gender steps of the individual-number-card parser.\<close>

definition normalizeIndividualNumber :: "FieldMap \<Rightarrow> FieldMap" where
  "normalizeIndividualNumber data =
     (case Mapping.lookup data ''individual_number'' of
        Some individualNumber \<Rightarrow>
          (let cleaned = ReplaceAll individualNumber '' '' '''';
               cleaned = ReplaceAll cleaned ''-'' ''''
           in if length cleaned = 12 then
                (let formatted = take 4 cleaned @ ''-'' @ take 4 (drop 4 cleaned) @ ''-'' @
                                 take 4 (drop 8 cleaned)
                 in Mapping.update ''individual_number'' formatted data)
              else data)
      | None \<Rightarrow> data)"

definition normalizeGender :: "FieldMap \<Rightarrow> FieldMap" where
  "normalizeGender data =
     (case Mapping.lookup data ''gender'' of
        Some gender \<Rightarrow>
          (let cleaned = TrimSpace gender in
           if cleaned = dansei \<or> cleaned = otoko then Mapping.update ''gender'' otoko data
           else if cleaned = josei \<or> cleaned = onna then Mapping.update ''gender'' onna data
           else data)
      | None \<Rightarrow> data)"

definition postProcessExtractedData_IN :: "FieldMap \<Rightarrow> FieldMap" where
  "postProcessExtractedData_IN data =
     normalizeGender (normalizeName (cleanAddress (normalizeIndividualNumber data)))"

section \<open>Regular expressions (package regexp)\<close>

text \<open>
  The fragment of Go's regular expressions that the pattern tables use: character classes
  (given by ranges of runes, possibly negated), concatenation, alternation, the greedy
  star, and one capturing group. A literal is a concatenation of one-rune classes;
  \<open>x+\<close>, \<open>x?\<close> and \<open>x{n}\<close> are written with these below, as the compiler of
  package regexp does.
\<close>

datatype regex =
    Eps
  | Chars bool "(rune \<times> rune) list"
  | Cat regex regex
  | Alt regex regex
  | Star regex
  | Group regex

text \<open>
  The input is read rune by rune (an invalid byte reads as U+FFFD, one byte wide). A
  matching state is the input still to read and the text of the capturing group, once it
  has matched.
\<close>

type_synonym mstate = "(rune \<times> string) list \<times> string option"

definition inRanges :: "(rune \<times> rune) list \<Rightarrow> rune \<Rightarrow> bool" where
  "inRanges rs r = list_ex (\<lambda>p. fst p \<le> r \<and> r \<le> snd p) rs"

text \<open>
  Greedy iteration: one more round of the body first, its alternatives in their order of
  preference, then the end of the iteration. A round must read at least one rune (the
  starred bodies of the program's patterns are single classes, which always do). The
  first argument bounds the rounds by the length of the input.
\<close>

primrec starIter :: "nat \<Rightarrow> (mstate \<Rightarrow> mstate list) \<Rightarrow> mstate \<Rightarrow> mstate list" where
  "starIter 0 f st = [st]"
| "starIter (Suc n) f st =
     concat (map (starIter n f) (filter (\<lambda>st'. length (fst st') < length (fst st)) (f st)))
     @ [st]"

text \<open>
  All the ways an expression matches at the start of the input, in the order of
  preference of Go's leftmost-first matching (the order a backtracking search tries them).
\<close>

primrec matchesAt :: "regex \<Rightarrow> mstate \<Rightarrow> mstate list" where
  "matchesAt Eps = (\<lambda>st. [st])"
| "matchesAt (Chars neg rs) =
     (\<lambda>st. case fst st of
              [] \<Rightarrow> []
            | t # ts \<Rightarrow> if inRanges rs (fst t) \<noteq> neg then [(ts, snd st)] else [])"
| "matchesAt (Cat a b) = (\<lambda>st. concat (map (matchesAt b) (matchesAt a st)))"
| "matchesAt (Alt a b) = (\<lambda>st. matchesAt a st @ matchesAt b st)"
| "matchesAt (Star a) = (\<lambda>st. starIter (length (fst st)) (matchesAt a) st)"
| "matchesAt (Group a) =
     (\<lambda>st. map (\<lambda>st'. (fst st',
                        Some (concat (map snd (take (length (fst st) - length (fst st')) (fst st))))))
              (matchesAt a st))"

text \<open>
  The leftmost match: the preferred match at the first position that has one. The result
  is the text of the whole match and the text of the group.
\<close>

fun findLeftmost :: "regex \<Rightarrow> (rune \<times> string) list \<Rightarrow> (string \<times> string) option" where
  "findLeftmost re ts =
     (case matchesAt re (ts, None) of
        st # _ \<Rightarrow>
          Some (concat (map snd (take (length ts - length (fst st)) ts)),
                case snd st of None \<Rightarrow> '''' | Some g \<Rightarrow> g)
      | [] \<Rightarrow> (case ts of [] \<Rightarrow> None | _ # ts' \<Rightarrow> findLeftmost re ts'))"

declare findLeftmost.simps [simp del]

text \<open>
  \<open>Regexp.FindStringSubmatch\<close> for an expression with one group: nil (the empty list here)
  when there is no match, else the whole match and the group.
\<close>

definition FindStringSubmatch :: "regex \<Rightarrow> string \<Rightarrow> string list" where
  "FindStringSubmatch re s =
     (case findLeftmost re (tokens s) of None \<Rightarrow> [] | Some (whole, g) \<Rightarrow> [whole, g])"

text \<open>Notation of the patterns.\<close>

definition Rune :: "rune \<Rightarrow> regex" where
  "Rune r = Chars False [(r, r)]"

fun Lit :: "rune list \<Rightarrow> regex" where
  "Lit [] = Eps"
| "Lit [r] = Rune r"
| "Lit (r # rs) = Cat (Rune r) (Lit rs)"

definition Plus :: "regex \<Rightarrow> regex" where
  "Plus a = Cat a (Star a)"

definition Quest :: "regex \<Rightarrow> regex" where
  "Quest a = Alt a Eps"

fun Times :: "nat \<Rightarrow> regex \<Rightarrow> regex" where
  "Times 0 a = Eps"
| "Times (Suc 0) a = a"
| "Times (Suc n) a = Cat a (Times n a)"

definition space_ranges :: "(rune \<times> rune) list" where
  \<comment> \<open>the Perl class of white space: tab, line feed, form feed, carriage return, space\<close>
  "space_ranges = [(0x09, 0x0A), (0x0C, 0x0D), (0x20, 0x20)]"

definition sp :: regex where \<comment> \<open>backslash s\<close>
  "sp = Chars False space_ranges"

definition nonsp :: regex where \<comment> \<open>a negated class of backslash s\<close>
  "nonsp = Chars True space_ranges"

definition digit :: regex where \<comment> \<open>backslash d\<close>
  "digit = Chars False [(0x30, 0x39)]"

definition colon :: regex where \<comment> \<open>the class of the ASCII colon and U+FF1A\<close>
  "colon = Chars False [(0x3A, 0x3A), (0xFF1A, 0xFF1A)]"

definition restOfLine :: regex where \<comment> \<open>one or more runes other than CR and LF, captured\<close>
  "restOfLine = Group (Plus (Chars True [(0x0A, 0x0A), (0x0D, 0x0D)]))"

definition labelled :: "regex \<Rightarrow> regex \<Rightarrow> regex" where
  \<comment> \<open>a label, white space, an optional colon, white space, the captured value\<close>
  "labelled label val = Cat label (Cat (Star sp) (Cat (Quest colon) (Cat (Star sp) val)))"

definition twelveDigits :: regex where
  \<comment> \<open>the group of four digits three times with optional white space between, or twelve digits\<close>
  "twelveDigits =
     Group (Alt (Cat (Times 4 digit) (Cat (Star sp) (Cat (Times 4 digit)
                   (Cat (Star sp) (Times 4 digit)))))
                (Times 12 digit))"

definition nameChars :: regex where
  \<comment> \<open>the class U+30A1 to U+30F4, U+30FC, U+4E00 to U+9FAF, U+3072 to U+3096\<close>
  "nameChars = Chars False [(0x30A1, 0x30F4), (0x30FC, 0x30FC), (0x4E00, 0x9FAF), (0x3072, 0x3096)]"

definition name_alt_pattern :: regex where
  "name_alt_pattern = Group (Cat (Plus nameChars) (Cat (Plus sp) (Plus nameChars)))"

definition oneOrTwoDigits :: regex where
  "oneOrTwoDigits = Cat digit (Quest digit)"

definition ymd :: regex where
  \<comment> \<open>U+5E74, one or two digits, U+6708, one or two digits, U+65E5\<close>
  "ymd = Cat (Rune 0x5E74) (Cat oneOrTwoDigits (Cat (Rune 0x6708)
           (Cat oneOrTwoDigits (Rune 0x65E5))))"

definition birth_date_alt_pattern :: regex where
  \<comment> \<open>the bracket of the source is a class of six kanji and the bar, not an alternation\<close>
  "birth_date_alt_pattern =
     Group (Alt (Cat (Chars False [(0x5E73, 0x5E73), (0x6210, 0x6210), (0x7C, 0x7C),
                                   (0x662D, 0x662D), (0x548C, 0x548C), (0x4EE4, 0x4EE4)])
                     (Cat oneOrTwoDigits ymd))
                (Cat (Times 4 digit) ymd))"

definition issue_date_pattern :: regex where
  "issue_date_pattern =
     labelled (Alt (Lit [0x4EA4, 0x4ED8, 0x5E74, 0x6708, 0x65E5])
                   (Cat (Lit [0x4EA4, 0x4ED8]) (Cat (Star sp) (Cat (Rune 0x5E74) (Cat (Star sp)
                      (Cat (Rune 0x6708) (Cat (Star sp) (Rune 0x65E5))))))))
              restOfLine"

definition expiry_date_pattern :: regex where
  "expiry_date_pattern =
     labelled (Alt (Lit [0x6709, 0x52B9, 0x671F, 0x9650])
                   (Cat (Lit [0x6709, 0x52B9]) (Cat (Star sp) (Cat (Rune 0x671F) (Cat (Star sp)
                      (Rune 0x9650))))))
              restOfLine"

text \<open>\<open>initJPDriverLicensePatterns\<close>, in the order of the assignments.\<close>

definition initJPDriverLicensePatterns :: "(string \<times> regex) list" where
  "initJPDriverLicensePatterns =
     [(''name'',
         Cat (Lit [0x6C0F, 0x540D]) (Cat (Star sp)
           (Group (Cat (Plus nonsp) (Cat (Plus sp) (Plus nonsp)))))),
      (''address'',
         Cat (Lit [0x4F4F, 0x6240]) (Cat (Star sp) (Group (Plus (Chars True [(0x0A, 0x0A)]))))),
      (''birth_date'',
         Cat (Lit [0x751F, 0x5E74, 0x6708, 0x65E5]) (Cat (Star sp) (Group (Plus nonsp)))),
      (''license_number'',
         labelled (Alt (Lit [0x514D, 0x8A31, 0x8A3C, 0x756A, 0x53F7])
                       (Cat (Lit [0x514D, 0x8A31, 0x8A3C]) (Cat (Star sp) (Lit [0x756A, 0x53F7]))))
                  twelveDigits),
      (''issue_date'', issue_date_pattern),
      (''expiry_date'', expiry_date_pattern),
      (''license_class'',
         labelled (Alt (Lit [0x514D, 0x8A31, 0x306E, 0x7A2E, 0x985E])
                    (Alt (Cat (Lit [0x514D, 0x8A31]) (Cat (Star sp) (Cat (Rune 0x306E)
                            (Cat (Star sp) (Lit [0x7A2E, 0x985E])))))
                         (Lit [0x7A2E, 0x985E])))
                  restOfLine),
      (''name_alt'', name_alt_pattern),
      (''birth_date_alt'', birth_date_alt_pattern)]"

text \<open>\<open>initIndividualNumberCardPatterns\<close>.\<close>

definition initIndividualNumberCardPatterns :: "(string \<times> regex) list" where
  "initIndividualNumberCardPatterns =
     [(''name'',
         labelled (Alt (Lit [0x6C0F, 0x540D]) (Cat (Rune 0x6C0F) (Cat (Star sp) (Rune 0x540D))))
                  restOfLine),
      (''address'',
         labelled (Alt (Lit [0x4F4F, 0x6240]) (Cat (Rune 0x4F4F) (Cat (Star sp) (Rune 0x6240))))
                  restOfLine),
      (''birth_date'',
         labelled (Alt (Lit [0x751F, 0x5E74, 0x6708, 0x65E5])
                       (Cat (Rune 0x751F) (Cat (Star sp) (Cat (Rune 0x5E74) (Cat (Star sp)
                          (Cat (Rune 0x6708) (Cat (Star sp) (Rune 0x65E5))))))))
                  restOfLine),
      (''gender'',
         labelled (Alt (Lit [0x6027, 0x5225]) (Cat (Rune 0x6027) (Cat (Star sp) (Rune 0x5225))))
                  (Group (Chars False [(0x7537, 0x7537), (0x5973, 0x5973)]))),
      (''individual_number'',
         labelled (Alt (Lit [0x500B, 0x4EBA, 0x756A, 0x53F7])
                       (Cat (Lit [0x500B, 0x4EBA]) (Cat (Star sp) (Lit [0x756A, 0x53F7]))))
                  twelveDigits),
      (''issue_date'', issue_date_pattern),
      (''expiry_date'', expiry_date_pattern),
      (''name_alt'', name_alt_pattern),
      (''birth_date_alt'', birth_date_alt_pattern),
      (''individual_number_alt'',
         Group (Cat (Times 4 digit) (Cat (Rune 0x2D) (Cat (Times 4 digit)
                  (Cat (Rune 0x2D) (Times 4 digit)))))),
      (''municipality'',
         Group (Cat (Plus (Chars True [(0x90FD, 0x90FD), (0x9053, 0x9053), (0x5E9C, 0x5E9C),
                                       (0x770C, 0x770C)]))
                 (Cat (Chars False [(0x90FD, 0x90FD), (0x9053, 0x9053), (0x5E9C, 0x5E9C),
                                    (0x770C, 0x770C)])
                 (Cat (Plus (Chars True [(0x5E02, 0x5E02), (0x533A, 0x533A), (0x753A, 0x753A),
                                         (0x6751, 0x6751)]))
                      (Chars False [(0x5E02, 0x5E02), (0x533A, 0x533A), (0x753A, 0x753A),
                                    (0x6751, 0x6751)])))))]"

section \<open>Fallback stage\<close>

text \<open>
  The body of the loop \<open>for fieldName, pattern := range p.patterns\<close>. The pattern table
  is a Go map, so the loop visits its keys in an order that the language leaves open; the
  order is the list the loop is folded over, a parameter of \<open>parseTextWithRegex\<close>.
\<close>

definition applyPattern :: "(string \<times> regex) list \<Rightarrow> string \<Rightarrow> FieldMap \<Rightarrow> string \<Rightarrow> FieldMap" where
  "applyPattern patterns ocrText extractedData fieldName =
     (case map_of patterns fieldName of
        None \<Rightarrow> extractedData
      | Some pattern \<Rightarrow>
          (let matches = FindStringSubmatch pattern ocrText in
           if length matches > 1 then
             (let v = TrimSpace (matches ! 1) in
              if v \<noteq> '''' then Mapping.update fieldName v extractedData else extractedData)
           else extractedData))"

text \<open>
  One of the blocks "if the field is absent, try the alternative pattern": \<open>field\<close> is
  looked up in the map, \<open>alt\<close> in the pattern table.
\<close>

definition applyAlternative ::
  "(string \<times> regex) list \<Rightarrow> string \<Rightarrow> string \<Rightarrow> string \<Rightarrow> FieldMap \<Rightarrow> FieldMap" where
  "applyAlternative patterns ocrText field alt extractedData =
     (case Mapping.lookup extractedData field of
        Some _ \<Rightarrow> extractedData
      | None \<Rightarrow>
          (case map_of patterns alt of
             None \<Rightarrow> extractedData
           | Some altPattern \<Rightarrow>
               (let matches = FindStringSubmatch altPattern ocrText in
                if length matches > 1
                then Mapping.update field (TrimSpace (matches ! 1)) extractedData
                else extractedData)))"

definition parseTextWithRegex_DL :: "string list \<Rightarrow> string \<Rightarrow> error + FieldMap" where
  "parseTextWithRegex_DL order ocrText =
     (let patterns = initJPDriverLicensePatterns;
          extractedData = foldl (applyPattern patterns ocrText) Mapping.empty order;
          extractedData = applyAlternative patterns ocrText ''name'' ''name_alt'' extractedData;
          extractedData =
            applyAlternative patterns ocrText ''birth_date'' ''birth_date_alt'' extractedData
      in Inr (postProcessExtractedData_DL extractedData))"

definition parseTextWithRegex_IN :: "string list \<Rightarrow> string \<Rightarrow> error + FieldMap" where
  "parseTextWithRegex_IN order ocrText =
     (let patterns = initIndividualNumberCardPatterns;
          extractedData = foldl (applyPattern patterns ocrText) Mapping.empty order;
          extractedData = applyAlternative patterns ocrText ''name'' ''name_alt'' extractedData;
          extractedData =
            applyAlternative patterns ocrText ''birth_date'' ''birth_date_alt'' extractedData;
          extractedData =
            applyAlternative patterns ocrText ''individual_number'' ''individual_number_alt''
              extractedData
      in Inr (postProcessExtractedData_IN extractedData))"

text \<open>
  An order in which \<open>range\<close> may visit a pattern table: each key once.
\<close>

definition iterationOrder :: "(string \<times> regex) list \<Rightarrow> string list \<Rightarrow> bool" where
  "iterationOrder patterns order = (distinct order \<and> set order = set (map fst patterns))"

text \<open>\<open>IndividualNumberCardParser.extractTextUsingOCR\<close>.\<close>

definition extractTextUsingOCR_IN :: "OCREngine \<Rightarrow> Mat \<Rightarrow> error + string" where
  "extractTextUsingOCR_IN engine mat =
     (if length mat = 0 then Inl CannotProcessEmptyImage
      else case ExtractText engine mat of
             Inl err \<Rightarrow> Inl (EngineExtractTextFailed err)
           | Inr text \<Rightarrow> Inr text)"

section \<open>The parsers\<close>

text \<open>
  \<open>IndividualNumberCardParser.Parse\<close>. \<open>fallback\<close> is steps 2 to 4 of the source, which
  every path that does not return from the region-based stage runs into. \<open>h\<close> is the copy
  of the helpers in use, \<open>order\<close> the order in which the fallback stage's loop visits
  the pattern table. What the source prints on the console is not modelled.
\<close>

definition Parse_IN :: "helpers \<Rightarrow> string list \<Rightarrow> OCREngine \<Rightarrow> Mat \<Rightarrow> error + FieldMap" where
  "Parse_IN h order engine mat =
     (let fallback =
            (case extractTextUsingOCR_IN engine mat of
               Inl err \<Rightarrow> Inl (OcrFailed err)
             | Inr ocrText \<Rightarrow>
                 (case parseTextWithRegex_IN order ocrText of
                    Inl err \<Rightarrow> Inl (RegexFailed err)
                  | Inr extractedData \<Rightarrow>
                      (case validateExtractedData_IN extractedData of
                         Some err \<Rightarrow> Inl (ValidationFailed err)
                       | None \<Rightarrow> Inr extractedData)))
      in case parseWithRegionDetection_IN h engine mat of
           Inl err \<Rightarrow> fallback
         | Inr extractedData \<Rightarrow>
             if \<not> Mapping.is_empty extractedData then
               (case validateExtractedData_IN extractedData of
                  None \<Rightarrow> Inr extractedData
                | Some validationErr \<Rightarrow> fallback)
             else fallback)"

text \<open>
  \<open>JPDriverLicenseParser.Parse\<close>. The method \<open>extractTextUsingOCR\<close> of this parser is
  not among the sources; it is the parameter \<open>extractTextUsingOCR\<close>.
\<close>

definition Parse_DL ::
  "helpers \<Rightarrow> string list \<Rightarrow> (Mat \<Rightarrow> error + string) \<Rightarrow> OCREngine \<Rightarrow> Mat \<Rightarrow> error + FieldMap" where
  "Parse_DL h order extractTextUsingOCR engine mat =
     (let fallback =
            (case extractTextUsingOCR mat of
               Inl err \<Rightarrow> Inl (OcrFailed err)
             | Inr ocrText \<Rightarrow>
                 (case parseTextWithRegex_DL order ocrText of
                    Inl err \<Rightarrow> Inl (RegexFailed err)
                  | Inr extractedData \<Rightarrow>
                      (case validateExtractedData_DL extractedData of
                         Some err \<Rightarrow> Inl (ValidationFailed err)
                       | None \<Rightarrow> Inr extractedData)))
      in case parseWithRegionDetection_DL h engine mat of
           Inl err \<Rightarrow> fallback
         | Inr extractedData \<Rightarrow>
             if \<not> Mapping.is_empty extractedData then
               (case validateExtractedData_DL extractedData of
                  None \<Rightarrow> Inr extractedData
                | Some validationErr \<Rightarrow> fallback)
             else fallback)"

section \<open>Notions used in the properties\<close>

text \<open>A field of a successful result.\<close>

definition fieldOf :: "string \<Rightarrow> error + FieldMap \<Rightarrow> string option" where
  "fieldOf k r = (case r of Inl err \<Rightarrow> None | Inr m \<Rightarrow> Mapping.lookup m k)"


text \<open>
  What the fallback stage alone makes of the outcome of the flat-text recognition: the
  recognition error is returned wrapped, otherwise the text is parsed, normalized and
  validated. Nothing of the region-based stage enters.
\<close>

definition fallbackStage_DL :: "string list \<Rightarrow> error + string \<Rightarrow> error + FieldMap" where
  "fallbackStage_DL order recognized =
     (case recognized of
        Inl err \<Rightarrow> Inl (OcrFailed err)
      | Inr ocrText \<Rightarrow>
          (case parseTextWithRegex_DL order ocrText of
             Inl err \<Rightarrow> Inl (RegexFailed err)
           | Inr extractedData \<Rightarrow>
               (case validateExtractedData_DL extractedData of
                  Some err \<Rightarrow> Inl (ValidationFailed err)
                | None \<Rightarrow> Inr extractedData)))"

definition fallbackStage_IN :: "string list \<Rightarrow> error + string \<Rightarrow> error + FieldMap" where
  "fallbackStage_IN order recognized =
     (case recognized of
        Inl err \<Rightarrow> Inl (OcrFailed err)
      | Inr ocrText \<Rightarrow>
          (case parseTextWithRegex_IN order ocrText of
             Inl err \<Rightarrow> Inl (RegexFailed err)
           | Inr extractedData \<Rightarrow>
               (case validateExtractedData_IN extractedData of
                  Some err \<Rightarrow> Inl (ValidationFailed err)
                | None \<Rightarrow> Inr extractedData)))"

text \<open>
  The region-based stage fails: it returns an error, an empty map, or a map that does not
  validate.
\<close>

definition regionFailed_DL :: "helpers \<Rightarrow> OCREngine \<Rightarrow> Mat \<Rightarrow> bool" where
  "regionFailed_DL h engine mat =
     (case parseWithRegionDetection_DL h engine mat of
        Inl err \<Rightarrow> True
      | Inr d \<Rightarrow> Mapping.is_empty d \<or> validateExtractedData_DL d \<noteq> None)"

definition regionFailed_IN :: "helpers \<Rightarrow> OCREngine \<Rightarrow> Mat \<Rightarrow> bool" where
  "regionFailed_IN h engine mat =
     (case parseWithRegionDetection_IN h engine mat of
        Inl err \<Rightarrow> True
      | Inr d \<Rightarrow> Mapping.is_empty d \<or> validateExtractedData_IN d \<noteq> None)"

text \<open>An identifier with its spaces (U+0020) removed, and with spaces and hyphens removed.\<close>

definition stripSpaces :: "string \<Rightarrow> string" where
  "stripSpaces v = filter (\<lambda>c. c \<noteq> CHR '' '') v"

definition stripSpacesHyphens :: "string \<Rightarrow> string" where
  "stripSpacesHyphens v = filter (\<lambda>c. c \<noteq> CHR '' '' \<and> c \<noteq> CHR ''-'') v"


text \<open>
  The value one pattern of the table contributes in the loop of the fallback stage: the
  trimmed text of its group, when the pattern matches and that text is not empty.
\<close>

definition capturedValue :: "(string \<times> regex) list \<Rightarrow> string \<Rightarrow> string \<Rightarrow> string option" where
  "capturedValue patterns ocrText fieldName =
     (case map_of patterns fieldName of
        None \<Rightarrow> None
      | Some pattern \<Rightarrow>
          (let matches = FindStringSubmatch pattern ocrText in
           if length matches > 1 \<and> TrimSpace (matches ! 1) \<noteq> ''''
           then Some (TrimSpace (matches ! 1)) else None))"

section \<open>Example inputs\<close>

definition oosaka :: string where \<comment> \<open>U+5927 U+962A, Osaka\<close>
  "oosaka = [CHR 0xE5, CHR 0xA4, CHR 0xA7, CHR 0xE9, CHR 0x98, CHR 0xAA]"

definition oosakafu :: string where \<comment> \<open>U+5927 U+962A U+5E9C, Osaka prefecture\<close>
  "oosakafu = oosaka @ fu"

definition tamachi :: string where \<comment> \<open>U+7530 U+753A, the town Tamachi\<close>
  "tamachi = [CHR 0xE7, CHR 0x94, CHR 0xB0] @ chou"

definition toukyouto :: string where \<comment> \<open>U+6771 U+4EAC U+90FD, Tokyo metropolis\<close>
  "toukyouto = [CHR 0xE6, CHR 0x9D, CHR 0xB1, CHR 0xE4, CHR 0xBA, CHR 0xAC] @ to"

definition yamada :: string where \<comment> \<open>U+5C71 U+7530, a family name\<close>
  "yamada = [CHR 0xE5, CHR 0xB1, CHR 0xB1, CHR 0xE7, CHR 0x94, CHR 0xB0]"

definition hanako :: string where \<comment> \<open>U+82B1 U+5B50, a given name\<close>
  "hanako = [CHR 0xE8, CHR 0x8A, CHR 0xB1, CHR 0xE5, CHR 0xAD, CHR 0x90]"



definition juusho :: string where \<comment> \<open>U+4F4F U+6240, the address label\<close>
  "juusho = [CHR 0xE4, CHR 0xBD, CHR 0x8F, CHR 0xE6, CHR 0x89, CHR 0x80]"

definition shou :: string where \<comment> \<open>U+8A3C, certificate\<close>
  "shou = [CHR 0xE8, CHR 0xA8, CHR 0xBC]"






definition address_region :: RegionInfo where
  \<comment> \<open>Osaka prefecture, Osaka city: a valid address of 18 bytes, so not a name by its shape\<close>
  "address_region =
     \<lparr>Text = oosakafu @ oosaka @ shi, X = 0, Y = 0, W = 0, H = 0, Category = ''address''\<rparr>"

definition name_line :: string where \<comment> \<open>the label U+6C0F U+540D, family name, given name\<close>
  "name_line = shimei @ '' '' @ yamada @ '' '' @ hanako"

definition card_text :: string where
  \<comment> \<open>three lines: the name line, the address label and address, the number label and 12 digits\<close>
  "card_text = name_line @ [CHR 0x0A] @ juusho @ '' '' @ oosakafu @ oosaka @ shi @ [CHR 0x0A]
               @ kojin_bangou @ '' 123456789012''"


definition license_line_spaced :: string where
  \<comment> \<open>the same with the groups of digits four spaces apart\<close>
  "license_line_spaced = menkyo @ shou @ bangou @ '' 1234    5678    9012''"

definition engine_addressOnly :: OCREngine where
  \<comment> \<open>the regions hold an address and no name; the flat text is the name line\<close>
  "engine_addressOnly =
     \<lparr>ExtractRegions = (\<lambda>img. Inr [address_region]),
      ExtractText = (\<lambda>img. Inr name_line)\<rparr>"

definition engine_noText :: OCREngine where
  \<comment> \<open>the same regions, and the flat-text recognition fails\<close>
  "engine_noText =
     \<lparr>ExtractRegions = (\<lambda>img. Inr [address_region]),
      ExtractText = (\<lambda>img. Inl (EngineError ''tesseract failed''))\<rparr>"

definition engine_digitsText :: OCREngine where
  \<comment> \<open>the same regions, and a flat text in which no pattern finds a name\<close>
  "engine_digitsText =
     \<lparr>ExtractRegions = (\<lambda>img. Inr [address_region]),
      ExtractText = (\<lambda>img. Inr ''123'')\<rparr>"

definition order_DL :: "string list" where \<comment> \<open>the keys in the order of the assignments\<close>
  "order_DL = map fst initJPDriverLicensePatterns"

definition order_IN :: "string list" where
  "order_IN = map fst initIndividualNumberCardPatterns"

definition named :: FieldMap where \<comment> \<open>a map with the required field only\<close>
  "named = Mapping.update ''name'' yamada Mapping.empty"

section \<open>Runes and bytes\<close>

text \<open>An ASCII byte is always decoded as itself, and never as part of a longer encoding.\<close>

lemma Decode_ascii:
  assumes "(of_char c :: int) < 0x80"
  shows "DecodeRuneInString (c # s) = (of_char c, 1)"
  using assms by (simp add: DecodeRuneInString_def Let_def runeSize_def)

lemma lead2: "0xC2 \<le> b \<Longrightarrow> b < 0xE0 \<Longrightarrow> 2 \<le> b mod 32" for b :: int
  by presburger

lemma lead3: "0xE1 \<le> b \<Longrightarrow> b < 0xF0 \<Longrightarrow> 1 \<le> b mod 16" for b :: int
  by presburger

lemma lead4: "0xF1 \<le> b \<Longrightarrow> b < 0xF5 \<Longrightarrow> 1 \<le> b mod 8" for b :: int
  by presburger

lemma cont_E0: "0xA0 \<le> x \<Longrightarrow> x \<le> 0xBF \<Longrightarrow> 32 \<le> x mod 64" for x :: int
  by presburger

lemma cont_F0: "0x90 \<le> x \<Longrightarrow> x \<le> 0xBF \<Longrightarrow> 16 \<le> x mod 64" for x :: int
  by presburger

lemma mod64_nonneg: "0 \<le> x mod 64" for x :: int
  by simp

lemma Decode_nonascii_rune:
  assumes "\<not> (of_char c :: int) < 0x80"
  shows "0x80 \<le> fst (DecodeRuneInString (c # s))"
proof -
  let ?b = "of_char c :: int"
  let ?sz = "runeSize ?b"
  consider (bad) "?b < 0xC2 \<or> 0xF5 \<le> ?b" | (two) "0xC2 \<le> ?b" "?b < 0xE0"
    | (three) "0xE0 \<le> ?b" "?b < 0xF0" | (four) "0xF0 \<le> ?b" "?b < 0xF5"
    by linarith
  then show ?thesis
  proof cases
    case bad
    then have "?sz = 0" using assms by (auto simp: runeSize_def)
    then show ?thesis by (simp add: DecodeRuneInString_def Let_def RuneError_def)
  next
    case two
    then have sz: "?sz = 2" by (simp add: runeSize_def)
    have "128 \<le> (?b mod 32) * 64 + x mod 64" for x :: int
      using lead2 [OF two] mod64_nonneg [of x] by linarith
    then show ?thesis using sz by (simp add: DecodeRuneInString_def Let_def RuneError_def)
  next
    case three
    then have sz: "?sz = 3" by (simp add: runeSize_def)
    have "128 \<le> (?b mod 16) * 4096 + (x mod 64) * 64 + y mod 64"
      if "fst (acceptRange ?b) \<le> x" "x \<le> snd (acceptRange ?b)" for x y :: int
    proof (cases "?b = 0xE0")
      case True
      then have "32 \<le> x mod 64" using that cont_E0 [of x] by (simp add: acceptRange_def)
      then show ?thesis using mod64_nonneg [of y] True by simp
    next
      case False
      then have "1 \<le> ?b mod 16" using three lead3 [of ?b] by simp
      then show ?thesis using mod64_nonneg [of y] mod64_nonneg [of x] by linarith
    qed
    then show ?thesis using sz by (simp add: DecodeRuneInString_def Let_def RuneError_def not_less)
  next
    case four
    then have sz: "?sz = 4" by (simp add: runeSize_def)
    have "128 \<le> (?b mod 8) * 262144 + (x mod 64) * 4096 + (y mod 64) * 64 + z mod 64"
      if "fst (acceptRange ?b) \<le> x" "x \<le> snd (acceptRange ?b)" for x y z :: int
    proof (cases "?b = 0xF0")
      case True
      then have "16 \<le> x mod 64" using that cont_F0 [of x] by (simp add: acceptRange_def)
      then show ?thesis using mod64_nonneg [of y] mod64_nonneg [of z] True by simp
    next
      case False
      then have "1 \<le> ?b mod 8" using four lead4 [of ?b] by simp
      then show ?thesis using mod64_nonneg [of y] mod64_nonneg [of x] mod64_nonneg [of z] by linarith
    qed
    then show ?thesis using sz by (simp add: DecodeRuneInString_def Let_def RuneError_def not_less)
  qed
qed


lemma acceptRange_lo: "0x80 \<le> fst (acceptRange b)"
  by (simp add: acceptRange_def)

lemma Decode_nonascii_bytes:
  assumes "\<not> (of_char c :: int) < 0x80" and "i < snd (DecodeRuneInString (c # s))"
  shows "0x80 \<le> (of_char ((c # s) ! i) :: int)"
proof -
  let ?b = "of_char c :: int"
  let ?sz = "runeSize ?b"
  have lo: "0x80 \<le> fst (acceptRange ?b)" by (rule acceptRange_lo)
  have "?sz = 0 \<or> ?sz = 2 \<or> ?sz = 3 \<or> ?sz = 4"
    using assms(1) by (simp add: runeSize_def)
  then have "i = 0 \<or> (i = 1 \<and> 0x80 \<le> (of_char (s ! 0) :: int))
      \<or> (i = 2 \<and> 0x80 \<le> (of_char (s ! 1) :: int)) \<or> (i = 3 \<and> 0x80 \<le> (of_char (s ! 2) :: int))"
    using assms(2) lo
    by (elim disjE) (auto simp: DecodeRuneInString_def Let_def not_less split: if_splits)
  then show ?thesis using assms(1) by auto
qed

lemma Decode_nonascii_take:
  assumes "\<not> (of_char c :: int) < 0x80" and "b \<in> set (take (snd (DecodeRuneInString (c # s))) (c # s))"
  shows "0x80 \<le> (of_char b :: int)"
proof -
  from assms(2) obtain i where i: "i < length (take (snd (DecodeRuneInString (c # s))) (c # s))"
    and b: "b = take (snd (DecodeRuneInString (c # s))) (c # s) ! i"
    by (auto simp: in_set_conv_nth)
  then have "i < snd (DecodeRuneInString (c # s))" by simp
  moreover from this have "b = (c # s) ! i" using b by simp
  ultimately show ?thesis using Decode_nonascii_bytes [OF assms(1)] by blast
qed

lemma runes_Cons:
  "runes (c # s) = fst (DecodeRuneInString (c # s)) # runes (drop (snd (DecodeRuneInString (c # s))) (c # s))"
  by (simp add: runes_def Let_def)

lemma runes_Nil: "runes [] = []"
  by (simp add: runes_def)

lemma ascii_rune_iff_byte:
  "r < 0x80 \<Longrightarrow> r \<in> set (runes s) \<longleftrightarrow> (\<exists>c\<in>set s. of_char c = r)"
proof (induction s rule: tokens.induct)
  case 1
  then show ?case by (simp add: runes_Nil)
next
  case (2 c s)
  let ?w = "snd (DecodeRuneInString (c # s))"
  have IH: "r \<in> set (runes (drop ?w (c # s))) \<longleftrightarrow> (\<exists>c\<in>set (drop ?w (c # s)). of_char c = r)"
    using 2 by simp
  show ?case
  proof (cases "(of_char c :: int) < 0x80")
    case True
    then show ?thesis using IH by (auto simp: runes_Cons Decode_ascii)
  next
    case False
    have r0: "fst (DecodeRuneInString (c # s)) \<noteq> r"
      using Decode_nonascii_rune [OF False, of s] 2(2) by simp
    have split: "set (c # s) = set (take ?w (c # s)) \<union> set (drop ?w (c # s))"
      by (metis append_take_drop_id set_append)
    have "(\<exists>c\<in>set (take ?w (c # s)). of_char c = r) = False"
      using Decode_nonascii_take [OF False, of _ s] 2(2) by fastforce
    then have "(\<exists>x\<in>set (c # s). of_char x = r) \<longleftrightarrow> (\<exists>x\<in>set (drop ?w (c # s)). of_char x = r)"
      unfolding split by blast
    then show ?thesis using IH r0 by (simp add: runes_Cons)
  qed
qed

lemma allDigitRunes_iff: "allDigitRunes rs \<longleftrightarrow> (\<forall>r\<in>set rs. 0x30 \<le> r \<and> r \<le> 0x39)"
  by (induction rs) auto

lemma digit_byte_iff: "(0x30 \<le> (of_char c :: int) \<and> (of_char c :: int) \<le> 0x39) \<longleftrightarrow> c \<in> set digits"
proof
  assume a: "0x30 \<le> (of_char c :: int) \<and> (of_char c :: int) \<le> 0x39"
  define n where "n = (of_char c :: int)"
  have "n = 0x30 \<or> n = 0x31 \<or> n = 0x32 \<or> n = 0x33 \<or> n = 0x34 \<or> n = 0x35 \<or> n = 0x36 \<or> n = 0x37
      \<or> n = 0x38 \<or> n = 0x39"
    using a unfolding n_def [symmetric] by presburger
  then have "n = of_char CHR ''0'' \<or> n = of_char CHR ''1'' \<or> n = of_char CHR ''2''
      \<or> n = of_char CHR ''3'' \<or> n = of_char CHR ''4'' \<or> n = of_char CHR ''5''
      \<or> n = of_char CHR ''6'' \<or> n = of_char CHR ''7'' \<or> n = of_char CHR ''8''
      \<or> n = of_char CHR ''9''"
    by simp
  then show "c \<in> set digits"
    unfolding n_def of_char_eq_iff by (simp add: digits_def)
next
  assume "c \<in> set digits"
  then show "0x30 \<le> (of_char c :: int) \<and> (of_char c :: int) \<le> 0x39"
    by (auto simp: digits_def)
qed

lemma digit_rune_iff_byte:
  "(\<exists>r\<in>set (runes s). 0x30 \<le> r \<and> r \<le> 0x39) \<longleftrightarrow> (\<exists>c\<in>set s. c \<in> set digits)"
proof
  assume "\<exists>r\<in>set (runes s). 0x30 \<le> r \<and> r \<le> 0x39"
  then obtain r where r: "r \<in> set (runes s)" "0x30 \<le> r" "r \<le> 0x39" by blast
  then have "r < 0x80" by simp
  from ascii_rune_iff_byte [OF this, of s] r(1) obtain c where "c \<in> set s" "of_char c = r"
    by blast
  then show "\<exists>c\<in>set s. c \<in> set digits"
    using r(2,3) digit_byte_iff [of c] by auto
next
  assume "\<exists>c\<in>set s. c \<in> set digits"
  then obtain c where c: "c \<in> set s" "c \<in> set digits" by blast
  then have d: "0x30 \<le> (of_char c :: int) \<and> (of_char c :: int) \<le> 0x39"
    using digit_byte_iff [of c] by simp
  then have "(of_char c :: int) < 0x80" by simp
  from ascii_rune_iff_byte [OF this, of s] c(1) have "of_char c \<in> set (runes s)" by blast
  then show "\<exists>r\<in>set (runes s). 0x30 \<le> r \<and> r \<le> 0x39" using d by blast
qed

lemma ContainsAny_digits_iff: "ContainsAny s digits \<longleftrightarrow> (\<exists>c\<in>set s. c \<in> set digits)"
proof -
  have rd: "runes digits = [0x30, 0x31, 0x32, 0x33, 0x34, 0x35, 0x36, 0x37, 0x38, 0x39]"
    unfolding digits_def by code_simp
  have in_rd: "r \<in> set (runes digits) \<longleftrightarrow> 0x30 \<le> r \<and> r \<le> 0x39" for r
    unfolding rd by (simp, presburger)
  have "ContainsAny s digits \<longleftrightarrow> (\<exists>r\<in>set (runes s). 0x30 \<le> r \<and> r \<le> 0x39)"
    by (simp add: ContainsAny_def list_ex_iff in_rd)
  then show ?thesis by (simp only: digit_rune_iff_byte)
qed


lemma allDigitRunes_runes_iff: "allDigitRunes (runes s) \<longleftrightarrow> (\<forall>c\<in>set s. c \<in> set digits)"
proof (induction s rule: tokens.induct)
  case 1
  then show ?case by (simp add: runes_Nil)
next
  case (2 c s)
  show ?case
  proof (cases "(of_char c :: int) < 0x80")
    case True
    have "allDigitRunes (runes (c # s)) \<longleftrightarrow>
        (0x30 \<le> (of_char c :: int) \<and> (of_char c :: int) \<le> 0x39) \<and> allDigitRunes (runes s)"
      by (auto simp: runes_Cons Decode_ascii [OF True])
    also have "allDigitRunes (runes s) \<longleftrightarrow> (\<forall>c\<in>set s. c \<in> set digits)"
      using 2 by (simp add: Decode_ascii [OF True])
    finally show ?thesis by (simp add: digit_byte_iff)
  next
    case False
    have "\<not> allDigitRunes (runes (c # s))"
      using Decode_nonascii_rune [OF False, of s] by (simp add: runes_Cons)
    moreover have "c \<notin> set digits"
      using False digit_byte_iff [of c] by auto
    ultimately show ?thesis by simp
  qed
qed

lemma ReplaceAll_byte_removed: "ReplaceAll s [c] [] = filter (\<lambda>x. x \<noteq> c) s"
  by (induction s) auto

section \<open>The identifier validators\<close>

text \<open>
  C5 (as the code has it). \<open>isValidIndividualNumber\<close> strips nothing: it accepts exactly
  the strings of 12 bytes that are all decimal digits. \<open>isValidLicenseNumber\<close> removes
  the space character U+0020 only (no other white space, no hyphen) and accepts exactly the
  strings that then have 12 bytes, all decimal digits.
\<close>

theorem id_validators_exact:
  "(isValidIndividualNumber text \<longleftrightarrow> length text = 12 \<and> (\<forall>c\<in>set text. c \<in> set digits)) \<and>
   (isValidLicenseNumber text \<longleftrightarrow>
      length (filter (\<lambda>c. c \<noteq> CHR '' '') text) = 12 \<and> (\<forall>c\<in>set text. c = CHR '' '' \<or> c \<in> set digits))"
  by (auto simp: isValidIndividualNumber_def isValidLicenseNumber_def Let_def
      allDigitRunes_runes_iff ReplaceAll_byte_removed)

text \<open>The characterisation at twelve digits, written plainly, with spaces and with hyphens.\<close>

theorem id_validators_exact_witness:
  "isValidIndividualNumber ''123456789012'' \<and> \<not> isValidIndividualNumber ''1234 5678 9012'' \<and>
   isValidLicenseNumber ''1234 5678 9012'' \<and> \<not> isValidLicenseNumber ''1234-5678-9012''"
  using id_validators_exact [of "''123456789012''"] id_validators_exact [of "''1234 5678 9012''"]
    id_validators_exact [of "''1234-5678-9012''"]
  by (simp add: digits_def)

text \<open>
  C5 as stated fails: the string 1234-5678-9012 has twelve digits once spaces and hyphens
  are stripped, and both validators reject it.
\<close>

theorem id_validators_reject_hyphens:
  "ReplaceAll (ReplaceAll ''1234-5678-9012'' '' '' []) ''-'' [] = ''123456789012'' \<and>
   \<not> isValidIndividualNumber ''1234-5678-9012'' \<and> \<not> isValidLicenseNumber ''1234-5678-9012''"
  by code_simp

section \<open>The region classifier\<close>

text \<open>
  C7 (as the code has it). The classifier applies five rules, the first that matches
  deciding: year and month marker both present gives \<open>date\<close>; one of the four markers
  U+90FD, U+770C, U+5E02, U+533A present gives \<open>address\<close>; a length of 2 to 10 bytes with no
  decimal digit gives \<open>name\<close>; a decimal digit and a length of at least 4 bytes gives
  \<open>number\<close>; anything else \<open>other\<close>. The markers U+9053, U+5E9C, U+753A and U+6751 are not
  consulted, so a text without the four markers is never an address.
\<close>

theorem categorizeText_rules:
  "categorizeText text =
     (if Contains text nen \<and> Contains text gatsu then ''date''
      else if Contains text to \<or> Contains text ken \<or> Contains text shi \<or> Contains text ku
        then ''address''
      else if 2 \<le> length text \<and> length text \<le> 10 \<and> \<not> (\<exists>c\<in>set text. c \<in> set digits)
        then ''name''
      else if (\<exists>c\<in>set text. c \<in> set digits) \<and> 4 \<le> length text then ''number''
      else ''other'') \<and>
   (\<not> Contains text to \<and> \<not> Contains text ken \<and> \<not> Contains text shi \<and> \<not> Contains text ku
      \<longrightarrow> categorizeText text \<noteq> ''address'')"
  by (simp add: categorizeText_def ContainsAny_digits_iff)

text \<open>The rules at the text U+6771 U+4EAC U+90FD, an address.\<close>

theorem categorizeText_rules_witness:
  "categorizeText toukyouto = ''address''"
  using categorizeText_rules [of toukyouto]
  by (simp add: toukyouto_def to_def nen_def gatsu_def)

text \<open>
  C7 as stated fails: U+5927 U+962A U+5E9C contains the prefecture-level marker U+5E9C and
  no date marker, U+7530 U+753A contains the town-level marker U+753A and no date marker,
  and both are classified \<open>name\<close>.
\<close>

theorem categorizeText_fu_chou_not_address:
  "Contains oosakafu fu \<and> \<not> Contains oosakafu nen \<and> \<not> Contains oosakafu gatsu \<and>
   categorizeText oosakafu = ''name'' \<and>
   Contains tamachi chou \<and> \<not> Contains tamachi nen \<and> \<not> Contains tamachi gatsu \<and>
   categorizeText tamachi = ''name''"
  by code_simp

section \<open>The region-based stage\<close>








section \<open>The two stages of a parser\<close>

text \<open>
  C2. When the region-based stage fails (an error, an empty map, or a map that does not
  validate), the result of \<open>Parse\<close> is what the fallback stage alone makes of the
  flat-text recognition: no field and no error of the region attempt is in it. A failure of
  the fallback stage is the error of the call: the recognition error wrapped, or the
  validation error of the normalized map wrapped.
\<close>

theorem region_failure_falls_back:
  "(regionFailed_DL h engine mat \<longrightarrow>
      Parse_DL h order extractText engine mat = fallbackStage_DL order (extractText mat) \<and>
      (\<forall>err. extractText mat = Inl err \<longrightarrow>
         Parse_DL h order extractText engine mat = Inl (OcrFailed err)) \<and>
      (\<forall>ocrText d err. extractText mat = Inr ocrText \<and> parseTextWithRegex_DL order ocrText = Inr d \<and>
         validateExtractedData_DL d = Some err \<longrightarrow>
         Parse_DL h order extractText engine mat = Inl (ValidationFailed err))) \<and>
   (regionFailed_IN h engine mat \<longrightarrow>
      Parse_IN h order engine mat = fallbackStage_IN order (extractTextUsingOCR_IN engine mat) \<and>
      (\<forall>err. extractTextUsingOCR_IN engine mat = Inl err \<longrightarrow>
         Parse_IN h order engine mat = Inl (OcrFailed err)) \<and>
      (\<forall>ocrText d err. extractTextUsingOCR_IN engine mat = Inr ocrText \<and>
         parseTextWithRegex_IN order ocrText = Inr d \<and> validateExtractedData_IN d = Some err \<longrightarrow>
         Parse_IN h order engine mat = Inl (ValidationFailed err)))"
proof (intro conjI impI)
  assume f: "regionFailed_DL h engine mat"
  show eq: "Parse_DL h order extractText engine mat = fallbackStage_DL order (extractText mat)"
  proof (cases "parseWithRegionDetection_DL h engine mat")
    case (Inl e)
    then show ?thesis by (simp add: Parse_DL_def fallbackStage_DL_def Let_def)
  next
    case (Inr d)
    then have "Mapping.is_empty d \<or> validateExtractedData_DL d \<noteq> None"
      using f by (simp add: regionFailed_DL_def)
    then show ?thesis
      using Inr by (auto simp: Parse_DL_def fallbackStage_DL_def Let_def)
  qed
  show "\<forall>err. extractText mat = Inl err \<longrightarrow>
         Parse_DL h order extractText engine mat = Inl (OcrFailed err)"
    unfolding eq by (simp add: fallbackStage_DL_def)
  show "\<forall>ocrText d err. extractText mat = Inr ocrText \<and> parseTextWithRegex_DL order ocrText = Inr d \<and>
         validateExtractedData_DL d = Some err \<longrightarrow>
         Parse_DL h order extractText engine mat = Inl (ValidationFailed err)"
    unfolding eq by (simp add: fallbackStage_DL_def)
next
  assume f: "regionFailed_IN h engine mat"
  show eq: "Parse_IN h order engine mat = fallbackStage_IN order (extractTextUsingOCR_IN engine mat)"
  proof (cases "parseWithRegionDetection_IN h engine mat")
    case (Inl e)
    then show ?thesis by (simp add: Parse_IN_def fallbackStage_IN_def Let_def)
  next
    case (Inr d)
    then have "Mapping.is_empty d \<or> validateExtractedData_IN d \<noteq> None"
      using f by (simp add: regionFailed_IN_def)
    then show ?thesis
      using Inr by (auto simp: Parse_IN_def fallbackStage_IN_def Let_def)
  qed
  show "\<forall>err. extractTextUsingOCR_IN engine mat = Inl err \<longrightarrow>
         Parse_IN h order engine mat = Inl (OcrFailed err)"
    unfolding eq by (simp add: fallbackStage_IN_def)
  show "\<forall>ocrText d err. extractTextUsingOCR_IN engine mat = Inr ocrText \<and>
         parseTextWithRegex_IN order ocrText = Inr d \<and> validateExtractedData_IN d = Some err \<longrightarrow>
         Parse_IN h order engine mat = Inl (ValidationFailed err)"
    unfolding eq by (simp add: fallbackStage_IN_def)
qed

text \<open>
  The regions hold a valid address and no name, so the region-based stage does not
  validate. With the name line as flat text the result is the fallback stage's map, without
  the address of the regions; with a failing recognition, or a flat text without a name,
  the fallback stage's error is returned.
\<close>

theorem region_failure_falls_back_witness:
  "fieldOf ''address'' (parseWithRegionDetection_DL helperFile engine_addressOnly ''image'')
     = Some (Text address_region) \<and>
   Parse_DL helperFile order_DL (extractTextUsingOCR_IN engine_addressOnly) engine_addressOnly
     ''image''
     = Inr (Mapping.update ''name'' (yamada @ '' '' @ hanako)
             (Mapping.update ''name_alt'' (shimei @ '' '' @ yamada) Mapping.empty)) \<and>
   Parse_IN cardFile order_IN engine_addressOnly ''image''
     = Inr (Mapping.update ''name'' (yamada @ '' '' @ hanako)
             (Mapping.update ''name_alt'' (shimei @ '' '' @ yamada) Mapping.empty)) \<and>
   Parse_IN helperFile order_IN engine_noText ''image''
     = Inl (OcrFailed (EngineExtractTextFailed (EngineError ''tesseract failed''))) \<and>
   Parse_IN helperFile order_IN engine_digitsText ''image''
     = Inl (ValidationFailed (RequiredFieldMissing ''name''))"
proof -
  have r0: "fieldOf ''address'' (parseWithRegionDetection_DL helperFile engine_addressOnly ''image'')
     = Some (Text address_region)" by code_simp
  have r1: "regionFailed_DL helperFile engine_addressOnly ''image''" by code_simp
  have r2: "regionFailed_IN cardFile engine_addressOnly ''image''" by code_simp
  have r3: "regionFailed_IN helperFile engine_noText ''image''" by code_simp
  have r4: "regionFailed_IN helperFile engine_digitsText ''image''" by code_simp
  have t1: "extractTextUsingOCR_IN engine_addressOnly ''image'' = Inr name_line" by code_simp
  have t3: "extractTextUsingOCR_IN engine_noText ''image''
      = Inl (EngineExtractTextFailed (EngineError ''tesseract failed''))" by code_simp
  have t4: "extractTextUsingOCR_IN engine_digitsText ''image'' = Inr ''123''" by code_simp
  have f1: "fallbackStage_DL order_DL (Inr name_line)
      = Inr (Mapping.update ''name'' (yamada @ '' '' @ hanako)
             (Mapping.update ''name_alt'' (shimei @ '' '' @ yamada) Mapping.empty))" by code_simp
  have f2: "fallbackStage_IN order_IN (Inr name_line)
      = Inr (Mapping.update ''name'' (yamada @ '' '' @ hanako)
             (Mapping.update ''name_alt'' (shimei @ '' '' @ yamada) Mapping.empty))" by code_simp
  have p4: "parseTextWithRegex_IN order_IN ''123'' = Inr Mapping.empty" by code_simp
  have v4: "validateExtractedData_IN Mapping.empty = Some (RequiredFieldMissing ''name'')"
    by code_simp
  note rff = region_failure_falls_back
  have a: "Parse_DL helperFile order_DL (extractTextUsingOCR_IN engine_addressOnly)
      engine_addressOnly ''image'' = fallbackStage_DL order_DL (Inr name_line)"
    using rff [of helperFile engine_addressOnly "''image''" order_DL
        "extractTextUsingOCR_IN engine_addressOnly"] r1 t1
    by simp
  have b: "Parse_IN cardFile order_IN engine_addressOnly ''image''
      = fallbackStage_IN order_IN (Inr name_line)"
    using rff [of cardFile engine_addressOnly "''image''" order_IN] r2 t1 by simp
  have c: "Parse_IN helperFile order_IN engine_noText ''image''
      = Inl (OcrFailed (EngineExtractTextFailed (EngineError ''tesseract failed'')))"
    using rff [of helperFile engine_noText "''image''" order_IN] r3 t3
    by (simp add: fallbackStage_IN_def)
  have d: "Parse_IN helperFile order_IN engine_digitsText ''image''
      = Inl (ValidationFailed (RequiredFieldMissing ''name''))"
    using rff [of helperFile engine_digitsText "''image''" order_IN] r4 t4 p4 v4
    by (simp add: fallbackStage_IN_def)
  show ?thesis using r0 a b c d f1 f2 by simp
qed

section \<open>Normalization of the numeric identifier\<close>

lemma strip_spaces_hyphens:
  "ReplaceAll (ReplaceAll v '' '' '''') ''-'' '''' = stripSpacesHyphens v"
  by (simp add: ReplaceAll_byte_removed stripSpacesHyphens_def conj_commute)

lemma strip_spaces: "ReplaceAll v '' '' '''' = stripSpaces v"
  by (simp add: ReplaceAll_byte_removed stripSpaces_def)

lemma lookup_cleanAddress:
  "k \<noteq> ''address'' \<Longrightarrow> Mapping.lookup (cleanAddress m) k = Mapping.lookup m k"
  by (simp add: cleanAddress_def Let_def split: option.splits)

lemma lookup_normalizeName:
  "k \<noteq> ''name'' \<Longrightarrow> Mapping.lookup (normalizeName m) k = Mapping.lookup m k"
  by (simp add: normalizeName_def Let_def split: option.splits)

lemma lookup_normalizeGender:
  "k \<noteq> ''gender'' \<Longrightarrow> Mapping.lookup (normalizeGender m) k = Mapping.lookup m k"
  by (simp add: normalizeGender_def Let_def split: option.splits)

lemma individual_number_postProcess:
  "Mapping.lookup (postProcessExtractedData_IN m) ''individual_number''
     = Mapping.lookup (normalizeIndividualNumber m) ''individual_number''"
  by (simp add: postProcessExtractedData_IN_def lookup_cleanAddress lookup_normalizeName
      lookup_normalizeGender)

lemma license_number_postProcess:
  "Mapping.lookup (postProcessExtractedData_DL m) ''license_number''
     = Mapping.lookup (normalizeLicenseNumber m) ''license_number''"
  by (simp add: postProcessExtractedData_DL_def lookup_cleanAddress lookup_normalizeName)





text \<open>
  The scenario of the specification: name, address and individual number on three lines.
\<close>

lemma individual_number_scenario:
  "parseTextWithRegex_IN order_IN card_text
     = Inr (Mapping.update ''name'' (yamada @ '' '' @ hanako)
           (Mapping.update ''address'' (oosakafu @ oosaka @ shi)
           (Mapping.update ''individual_number'' ''1234-5678-9012''
           (Mapping.update ''name_alt'' (shimei @ '' '' @ yamada)
           (Mapping.update ''municipality''
              (name_line @ [CHR 0x0A] @ juusho @ '' '' @ oosakafu @ oosaka @ shi)
            Mapping.empty)))))"
  by code_simp

section \<open>Validation\<close>

lemma checkRequired_name:
  "checkRequired data [''name''] = None \<longleftrightarrow>
     (\<exists>n. Mapping.lookup data ''name'' = Some n \<and> TrimSpace n \<noteq> [])"
  by (auto split: option.splits)

lemma validate_DL_iff:
  "validateExtractedData_DL data = None \<longleftrightarrow>
     (\<exists>n. Mapping.lookup data ''name'' = Some n \<and> TrimSpace n \<noteq> []) \<and>
     (\<forall>v. Mapping.lookup data ''license_number'' = Some v \<longrightarrow> length (stripSpaces v) = 12)"
proof (cases "checkRequired data [''name'']")
  case None
  then show ?thesis
    using checkRequired_name [of data]
    by (auto simp: validateExtractedData_DL_def strip_spaces Let_def split: option.splits)
next
  case (Some e)
  then show ?thesis
    using checkRequired_name [of data] by (simp add: validateExtractedData_DL_def)
qed

lemma validate_IN_iff:
  "validateExtractedData_IN data = None \<longleftrightarrow>
     (\<exists>n. Mapping.lookup data ''name'' = Some n \<and> TrimSpace n \<noteq> []) \<and>
     (\<forall>v. Mapping.lookup data ''individual_number'' = Some v \<longrightarrow>
          length (stripSpacesHyphens v) = 12) \<and>
     (\<forall>g. Mapping.lookup data ''gender'' = Some g \<longrightarrow> g = otoko \<or> g = onna)"
proof (cases "checkRequired data [''name'']")
  case None
  then show ?thesis
    using checkRequired_name [of data]
    by (auto simp: validateExtractedData_IN_def strip_spaces_hyphens Let_def split: option.splits)
next
  case (Some e)
  then show ?thesis
    using checkRequired_name [of data] by (simp add: validateExtractedData_IN_def)
qed

text \<open>
  C4 (as the code has it). Let the required field \<open>name\<close> be present and non-blank. For
  the driver's license, with \<open>license_number\<close> present, validation returns an error if and
  only if the value with its spaces removed (hyphens stay) does not have exactly 12 bytes.
  For the individual-number card, with \<open>individual_number\<close> present and \<open>gender\<close> absent or
  one of the two canonical values, validation returns an error if and only if the value
  with its spaces and hyphens removed does not have exactly 12 bytes. Only the length is
  tested, not that the bytes are digits. So dddd-dddd-dddd passes for the individual-number
  card and fails for the driver's license.
\<close>

theorem numeric_id_validation:
  assumes "Mapping.lookup data ''name'' = Some n" and "TrimSpace n \<noteq> []"
  shows "(Mapping.lookup data ''license_number'' = Some v \<longrightarrow>
            (validateExtractedData_DL data \<noteq> None \<longleftrightarrow> length (stripSpaces v) \<noteq> 12)) \<and>
         (Mapping.lookup data ''individual_number'' = Some v \<and>
          (\<forall>g. Mapping.lookup data ''gender'' = Some g \<longrightarrow> g = otoko \<or> g = onna) \<longrightarrow>
            (validateExtractedData_IN data \<noteq> None \<longleftrightarrow> length (stripSpacesHyphens v) \<noteq> 12))"
  using assms by (auto simp: validate_DL_iff validate_IN_iff)

text \<open>The grouped form passes for the card and fails for the licence.\<close>

theorem numeric_id_validation_witness:
  "validateExtractedData_IN (Mapping.update ''individual_number'' ''1234-5678-9012'' named) = None \<and>
   validateExtractedData_DL (Mapping.update ''license_number'' ''1234-5678-9012'' named) \<noteq> None"
proof -
  have n1: "Mapping.lookup (Mapping.update ''individual_number'' ''1234-5678-9012'' named) ''name''
      = Some yamada" by (simp add: named_def)
  have n2: "Mapping.lookup (Mapping.update ''license_number'' ''1234-5678-9012'' named) ''name''
      = Some yamada" by (simp add: named_def)
  have t: "TrimSpace yamada \<noteq> []" by code_simp
  have g: "\<forall>g. Mapping.lookup (Mapping.update ''individual_number'' ''1234-5678-9012'' named)
      ''gender'' = Some g \<longrightarrow> g = otoko \<or> g = onna" by (simp add: named_def)
  have s1: "length (stripSpacesHyphens ''1234-5678-9012'') = 12"
    by (simp add: stripSpacesHyphens_def)
  have s2: "length (stripSpaces ''1234-5678-9012'') \<noteq> 12"
    by (simp add: stripSpaces_def)
  show ?thesis
    using numeric_id_validation [OF n1 t, of "''1234-5678-9012''"]
      numeric_id_validation [OF n2 t, of "''1234-5678-9012''"] g s1 s2
    by simp
qed

text \<open>
  C4 as stated fails: the driver's-license validation rejects dddd-dddd-dddd, and the
  card's validation accepts twelve letters.
\<close>

theorem numeric_id_validation_not_digits:
  "validateExtractedData_DL (Mapping.update ''license_number'' ''1234-5678-9012'' named)
     = Some (InvalidLicenseNumberFormat 14) \<and>
   validateExtractedData_IN (Mapping.update ''individual_number'' ''abcdefghijkl'' named) = None"
  by code_simp

text \<open>
  C8 (as the code has it). Validation succeeds if and only if \<open>name\<close> is present and
  non-blank after trimming, the numeric identifier, if present, has exactly 12 bytes once
  stripped (of spaces for the driver's license, of spaces and hyphens for the card), and,
  for the card, \<open>gender\<close>, if present, is one of the two canonical values. No other field
  is looked at.
\<close>

theorem validate_succeeds_iff:
  "(validateExtractedData_DL data = None \<longleftrightarrow>
      (\<exists>n. Mapping.lookup data ''name'' = Some n \<and> TrimSpace n \<noteq> []) \<and>
      (\<forall>v. Mapping.lookup data ''license_number'' = Some v \<longrightarrow> length (stripSpaces v) = 12)) \<and>
   (validateExtractedData_IN data = None \<longleftrightarrow>
      (\<exists>n. Mapping.lookup data ''name'' = Some n \<and> TrimSpace n \<noteq> []) \<and>
      (\<forall>v. Mapping.lookup data ''individual_number'' = Some v \<longrightarrow>
           length (stripSpacesHyphens v) = 12) \<and>
      (\<forall>g. Mapping.lookup data ''gender'' = Some g \<longrightarrow> g = otoko \<or> g = onna))"
  using validate_DL_iff [of data] validate_IN_iff [of data] by blast

text \<open>
  A map with the name only validates for both document types, also with a further field
  that is neither the numeric identifier nor the gender.
\<close>

theorem validate_succeeds_iff_witness:
  "validateExtractedData_DL named = None \<and> validateExtractedData_IN named = None \<and>
   validateExtractedData_IN (Mapping.update ''address'' ''x'' named) = None"
proof -
  have t: "TrimSpace yamada \<noteq> []" by code_simp
  show ?thesis
    using validate_succeeds_iff [of named]
      validate_succeeds_iff [of "Mapping.update ''address'' ''x'' named"] t
    by (simp add: named_def)
qed

text \<open>
  C8 as stated fails: with the required field present and non-blank, an optional gender or
  numeric identifier makes validation fail.
\<close>

theorem validate_fails_on_optional_fields:
  "validateExtractedData_IN (Mapping.update ''gender'' ''x'' named) = Some (InvalidGenderValue ''x'') \<and>
   validateExtractedData_IN (Mapping.update ''individual_number'' ''123'' named)
     = Some (InvalidIndividualNumberFormat 3) \<and>
   validateExtractedData_DL (Mapping.update ''license_number'' ''123'' named)
     = Some (InvalidLicenseNumberFormat 3)"
  by code_simp

section \<open>Repeating the normalization\<close>

lemma three_groups:
  assumes "length c = 12"
  shows "take 4 c @ take 4 (drop 4 c) @ take 4 (drop 8 c) = c"
proof -
  have a: "take 4 (drop 8 c) = drop 4 (drop 4 c)" using assms by simp
  have "take 4 (drop 4 c) @ drop 4 (drop 4 c) = drop 4 c" by (rule append_take_drop_id)
  then have "take 4 c @ take 4 (drop 4 c) @ take 4 (drop 8 c) = take 4 c @ drop 4 c"
    unfolding a by (rule arg_cong)
  then show ?thesis by (simp only: append_take_drop_id)
qed

lemma strip_grouped:
  assumes "stripSpacesHyphens c = c" and "length c = 12"
  shows "stripSpacesHyphens (take 4 c @ ''-'' @ take 4 (drop 4 c) @ ''-'' @ take 4 (drop 8 c)) = c"
proof -
  have "stripSpacesHyphens (take 4 c @ ''-'' @ take 4 (drop 4 c) @ ''-'' @ take 4 (drop 8 c))
      = stripSpacesHyphens (take 4 c @ take 4 (drop 4 c) @ take 4 (drop 8 c))"
    by (simp add: stripSpacesHyphens_def)
  then show ?thesis
    unfolding three_groups [OF assms(2)] using assms(1) by simp
qed

lemma lookup_normalizeIndividualNumber:
  "Mapping.lookup (normalizeIndividualNumber m) ''individual_number'' =
     (case Mapping.lookup m ''individual_number'' of
        None \<Rightarrow> None
      | Some v \<Rightarrow>
          Some (if length (stripSpacesHyphens v) = 12
                then take 4 (stripSpacesHyphens v) @ ''-'' @ take 4 (drop 4 (stripSpacesHyphens v))
                     @ ''-'' @ take 4 (drop 8 (stripSpacesHyphens v))
                else v))"
  by (simp add: normalizeIndividualNumber_def strip_spaces_hyphens Let_def split: option.splits)

text \<open>
  On the individual number, the card's normalization is idempotent for every map.
\<close>

lemma individual_number_normalization_idempotent:
  "Mapping.lookup (postProcessExtractedData_IN (postProcessExtractedData_IN data)) ''individual_number''
     = Mapping.lookup (postProcessExtractedData_IN data) ''individual_number''"
proof (cases "Mapping.lookup data ''individual_number''")
  case None
  then show ?thesis
    by (simp add: individual_number_postProcess lookup_normalizeIndividualNumber)
next
  case (Some v)
  define c where "c = stripSpacesHyphens v"
  have cc: "stripSpacesHyphens c = c" by (simp add: c_def stripSpacesHyphens_def)
  show ?thesis
  proof (cases "length c = 12")
    case True
    define f where "f = take 4 c @ ''-'' @ take 4 (drop 4 c) @ ''-'' @ take 4 (drop 8 c)"
    have sf: "stripSpacesHyphens f = c" unfolding f_def by (rule strip_grouped [OF cc True])
    have one: "Mapping.lookup (postProcessExtractedData_IN data) ''individual_number'' = Some f"
      using Some True
      by (simp add: individual_number_postProcess lookup_normalizeIndividualNumber c_def f_def)
    have two: "Mapping.lookup (postProcessExtractedData_IN (postProcessExtractedData_IN data))
        ''individual_number'' = Some f"
      unfolding individual_number_postProcess [of "postProcessExtractedData_IN data"]
        lookup_normalizeIndividualNumber [of "postProcessExtractedData_IN data"] one
      using True by (simp add: sf, simp add: f_def)
    show ?thesis using one two by simp
  next
    case False
    have one: "Mapping.lookup (postProcessExtractedData_IN data) ''individual_number'' = Some v"
      using Some False
      by (simp add: individual_number_postProcess lookup_normalizeIndividualNumber c_def)
    have two: "Mapping.lookup (postProcessExtractedData_IN (postProcessExtractedData_IN data))
        ''individual_number'' = Some v"
      unfolding individual_number_postProcess [of "postProcessExtractedData_IN data"]
        lookup_normalizeIndividualNumber [of "postProcessExtractedData_IN data"] one
      using False by (simp add: c_def)
    show ?thesis using one two by simp
  qed
qed

text \<open>
  C9, at the failing input. The fallback stage of the driver's-license parser, on the
  licence-number label followed by three groups of digits four spaces apart, returns the
  groups two spaces apart: the single \<open>ReplaceAll\<close> of two spaces by one has left extra
  spaces. Normalizing that map once more changes \<open>license_number\<close> again, so the
  normalization is not idempotent.
\<close>

theorem license_number_normalization_not_idempotent:
  "parseTextWithRegex_DL order_DL license_line_spaced
     = Inr (Mapping.update ''license_number'' ''1234  5678  9012'' Mapping.empty) \<and>
   postProcessExtractedData_DL (Mapping.update ''license_number'' ''1234    5678    9012'' Mapping.empty)
     = Mapping.update ''license_number'' ''1234  5678  9012'' Mapping.empty \<and>
   postProcessExtractedData_DL
     (postProcessExtractedData_DL
        (Mapping.update ''license_number'' ''1234    5678    9012'' Mapping.empty))
     = Mapping.update ''license_number'' ''1234 5678 9012'' Mapping.empty"
  by code_simp

section \<open>The loop over the pattern table\<close>

lemma lookup_applyPattern:
  "Mapping.lookup (applyPattern ps t m k) k' =
     (if k' = k then (case capturedValue ps t k of Some v \<Rightarrow> Some v | None \<Rightarrow> Mapping.lookup m k)
      else Mapping.lookup m k')"
  by (simp add: applyPattern_def capturedValue_def Let_def split: option.splits)

lemma lookup_foldl_applyPattern:
  "Mapping.lookup (foldl (applyPattern ps t) m order) k =
     (if k \<in> set order
      then (case capturedValue ps t k of Some v \<Rightarrow> Some v | None \<Rightarrow> Mapping.lookup m k)
      else Mapping.lookup m k)"
proof (induction order rule: rev_induct)
  case Nil
  then show ?case by simp
next
  case (snoc x xs)
  then show ?case
    by (cases "capturedValue ps t k") (auto simp: lookup_applyPattern)
qed

lemma foldl_applyPattern_order:
  assumes "set o1 = set o2"
  shows "foldl (applyPattern ps t) m o1 = foldl (applyPattern ps t) m o2"
  by (rule mapping_eqI) (simp add: lookup_foldl_applyPattern assms)

text \<open>
  C10. The fallback-stage extraction does not depend on the order in which the loop visits
  the pattern table: for two orders that each visit every key of the table once, the
  results are equal, for every OCR text.
\<close>

theorem parseTextWithRegex_order_independent:
  "(iterationOrder initJPDriverLicensePatterns o1 \<and> iterationOrder initJPDriverLicensePatterns o2
      \<longrightarrow> parseTextWithRegex_DL o1 ocrText = parseTextWithRegex_DL o2 ocrText) \<and>
   (iterationOrder initIndividualNumberCardPatterns o1 \<and>
    iterationOrder initIndividualNumberCardPatterns o2
      \<longrightarrow> parseTextWithRegex_IN o1 ocrText = parseTextWithRegex_IN o2 ocrText)"
proof (intro conjI impI)
  assume "iterationOrder initJPDriverLicensePatterns o1 \<and> iterationOrder initJPDriverLicensePatterns o2"
  then have "set o1 = set o2" by (simp add: iterationOrder_def)
  then show "parseTextWithRegex_DL o1 ocrText = parseTextWithRegex_DL o2 ocrText"
    by (simp add: parseTextWithRegex_DL_def
        foldl_applyPattern_order [of o1 o2 initJPDriverLicensePatterns ocrText])
next
  assume "iterationOrder initIndividualNumberCardPatterns o1 \<and>
    iterationOrder initIndividualNumberCardPatterns o2"
  then have "set o1 = set o2" by (simp add: iterationOrder_def)
  then show "parseTextWithRegex_IN o1 ocrText = parseTextWithRegex_IN o2 ocrText"
    by (simp add: parseTextWithRegex_IN_def
        foldl_applyPattern_order [of o1 o2 initIndividualNumberCardPatterns ocrText])
qed

text \<open>The order of the assignments and its reverse, on the name line.\<close>

theorem parseTextWithRegex_order_independent_witness:
  "iterationOrder initJPDriverLicensePatterns order_DL \<and>
   iterationOrder initJPDriverLicensePatterns (rev order_DL) \<and>
   parseTextWithRegex_DL order_DL name_line = parseTextWithRegex_DL (rev order_DL) name_line \<and>
   iterationOrder initIndividualNumberCardPatterns order_IN \<and>
   iterationOrder initIndividualNumberCardPatterns (rev order_IN) \<and>
   parseTextWithRegex_IN order_IN name_line = parseTextWithRegex_IN (rev order_IN) name_line"
proof -
  have d1: "iterationOrder initJPDriverLicensePatterns order_DL"
    by (simp add: iterationOrder_def order_DL_def initJPDriverLicensePatterns_def)
  have d2: "iterationOrder initJPDriverLicensePatterns (rev order_DL)"
    using d1 by (simp add: iterationOrder_def)
  have i1: "iterationOrder initIndividualNumberCardPatterns order_IN"
    by (simp add: iterationOrder_def order_IN_def initIndividualNumberCardPatterns_def)
  have i2: "iterationOrder initIndividualNumberCardPatterns (rev order_IN)"
    using i1 by (simp add: iterationOrder_def)
  show ?thesis
    using parseTextWithRegex_order_independent [of order_DL "rev order_DL" name_line]
      parseTextWithRegex_order_independent [of order_IN "rev order_IN" name_line]
      d1 d2 i1 i2
    by simp
qed

section \<open>Keys of the returned map\<close>

text \<open>
  C6, at the failing input. The loop of the fallback stage runs over every entry of the
  pattern table, the alternate patterns included, and stores each match under the entry's
  own key. On the flat text "label, family name, given name" both parsers return a map
  that validates and has the key \<open>name_alt\<close>, whose value is the label with the family
  name.
\<close>

theorem parse_returns_alternate_key:
  "Parse_DL helperFile order_DL (extractTextUsingOCR_IN engine_addressOnly) engine_addressOnly
     ''image''
     = Inr (Mapping.update ''name'' (yamada @ '' '' @ hanako)
             (Mapping.update ''name_alt'' (shimei @ '' '' @ yamada) Mapping.empty)) \<and>
   fieldOf ''name_alt''
     (Parse_DL cardFile order_DL (extractTextUsingOCR_IN engine_addressOnly) engine_addressOnly
        ''image'')
     = Some (shimei @ '' '' @ yamada) \<and>
   fieldOf ''name_alt'' (Parse_IN helperFile order_IN engine_addressOnly ''image'')
     = Some (shimei @ '' '' @ yamada) \<and>
   fieldOf ''name_alt'' (Parse_IN cardFile order_IN engine_addressOnly ''image'')
     = Some (shimei @ '' '' @ yamada)"
  by code_simp

end
